theory Spec2Isabelle
  imports Main "HOL-Library.AList"
begin

unbundle bit_operations_syntax

section \<open>Text, exceptions and return codes\<close>

text \<open>
  A Python \<open>str\<close> is a sequence of Unicode code points; a code point is a natural
  number. ASCII literals are written through \<open>ascii\<close>; text beyond ASCII is
  written as its code points.
\<close>

type_synonym str = "nat list"

definition ascii :: "string \<Rightarrow> str" where
  "ascii s = map of_char s"

text \<open>The exceptions that the modelled code can raise.\<close>

datatype fault =
    IndexError
  | TypeError
  | AttributeError
  | JSONDecodeError
  | ParserError
  | FileNotFoundError
  | OSError
  | TransportError
  | EncodingError
  | KeyError
  | RecursionError

text \<open>\<open>class ReturnCode(Enum)\<close> of \<open>libs/source.py\<close>.\<close>

datatype ReturnCode =
    SUCCESS
  | ALREADY_SIGNED
  | NO_RESERVATION
  | GET_LOGIN_URL_FAILED
  | LOGIN_SKIPED
  | COOKIE_EXPIRED
  | FAILED

subsection \<open>String primitives of the Python runtime\<close>

text \<open>
  \<open>str.isspace\<close> on one code point: the whitespace table of CPython
  (\<open>_PyUnicode_IsWhitespace\<close>), which \<open>str.strip()\<close> and \<open>str.split(None)\<close> use.
\<close>

definition isspace :: "nat \<Rightarrow> bool" where
  "isspace c \<longleftrightarrow>
     (9 \<le> c \<and> c \<le> 13) \<or> (28 \<le> c \<and> c \<le> 32) \<or> c = 133 \<or> c = 160 \<or> c = 5760 \<or>
     (8192 \<le> c \<and> c \<le> 8202) \<or> c = 8232 \<or> c = 8233 \<or> c = 8239 \<or> c = 8287 \<or> c = 12288"

text \<open>
  The class \<open>\d\<close> of a \<open>str\<close> pattern: the code points of Unicode category Nd
  (Unicode 14.0.0, the table of CPython 3.11), as inclusive ranges.
\<close>

definition decimal_ranges :: "(nat \<times> nat) list" where
  "decimal_ranges =
    [(48, 57), (1632, 1641), (1776, 1785), (1984, 1993), (2406, 2415), (2534, 2543),
     (2662, 2671), (2790, 2799), (2918, 2927), (3046, 3055), (3174, 3183), (3302, 3311),
     (3430, 3439), (3558, 3567), (3664, 3673), (3792, 3801), (3872, 3881), (4160, 4169),
     (4240, 4249), (6112, 6121), (6160, 6169), (6470, 6479), (6608, 6617), (6784, 6793),
     (6800, 6809), (6992, 7001), (7088, 7097), (7232, 7241), (7248, 7257), (42528, 42537),
     (43216, 43225), (43264, 43273), (43472, 43481), (43504, 43513), (43600, 43609),
     (44016, 44025), (65296, 65305), (66720, 66729), (68912, 68921), (69734, 69743),
     (69872, 69881), (69942, 69951), (70096, 70105), (70384, 70393), (70736, 70745),
     (70864, 70873), (71248, 71257), (71360, 71369), (71472, 71481), (71904, 71913),
     (72016, 72025), (72784, 72793), (73040, 73049), (73120, 73129), (92768, 92777),
     (92864, 92873), (93008, 93017), (120782, 120831), (123200, 123209), (123632, 123641),
     (125264, 125273), (130032, 130041)]"

fun in_ranges :: "(nat \<times> nat) list \<Rightarrow> nat \<Rightarrow> bool" where
  "in_ranges [] c = False"
| "in_ranges ((lo, hi) # rs) c = (if lo \<le> c \<and> c \<le> hi then True else in_ranges rs c)"

definition isdecimal :: "nat \<Rightarrow> bool" where
  "isdecimal c = in_ranges decimal_ranges c"

text \<open>\<open>str.strip()\<close> with no argument.\<close>

definition strip :: "str \<Rightarrow> str" where
  "strip s = rev (dropWhile isspace (rev (dropWhile isspace s)))"

text \<open>
  \<open>str.split(None, 1)\<close>: leading whitespace is skipped; the first field runs to the
  next whitespace; what follows the whitespace after it, if anything, is the second
  field, kept whole.
\<close>

definition split_None_1 :: "str \<Rightarrow> str list" where
  "split_None_1 s =
     (let s1 = dropWhile isspace s in
      if s1 = [] then []
      else
        let w = takeWhile (\<lambda>c. \<not> isspace c) s1;
            r = dropWhile isspace (dropWhile (\<lambda>c. \<not> isspace c) s1)
        in if r = [] then [w] else [w, r])"

section \<open>The token cache file\<close>

text \<open>
  \<open>uuid_pattern = re.compile(r'[a-f\d]{8}-(?:[a-f\d]{4}-){3}[a-f\d]{12}')\<close> under
  \<open>re.fullmatch\<close>: 36 code points, a hyphen at offsets 8, 13, 18 and 23, and a member
  of the class \<open>[a-f\d]\<close> everywhere else.
\<close>

definition uuid_class :: "nat \<Rightarrow> bool" where
  "uuid_class c \<longleftrightarrow> (97 \<le> c \<and> c \<le> 102) \<or> isdecimal c"

definition fullmatch_uuid :: "str \<Rightarrow> bool" where
  "fullmatch_uuid s \<longleftrightarrow>
     length s = 36 \<and>
     list_all uuid_class (take 8 s) \<and> s ! 8 = 45 \<and>
     list_all uuid_class (take 4 (drop 9 s)) \<and> s ! 13 = 45 \<and>
     list_all uuid_class (take 4 (drop 14 s)) \<and> s ! 18 = 45 \<and>
     list_all uuid_class (take 4 (drop 19 s)) \<and> s ! 23 = 45 \<and>
     list_all uuid_class (drop 24 s)"

text \<open>
  The file system as the cache functions meet it: the answer of \<open>Path(path).exists()\<close>;
  what \<open>open(path, 'r')\<close> and \<open>f.readlines()\<close> give, the decoded text or the exception
  of either; and the exception of \<open>open(path, 'w+')\<close>, if it raises. Text is read with
  universal newlines: a carriage return, alone or before a line feed, arrives as a line
  feed. Text that is written is taken to be encodable, and the line separator to be the
  line feed.
\<close>

record filesystem =
  path_exists :: "str \<Rightarrow> bool"
  read_text :: "str \<Rightarrow> fault + str"
  write_fault :: "str \<Rightarrow> fault option"

fun universal_newlines :: "str \<Rightarrow> str" where
  "universal_newlines [] = []"
| "universal_newlines [c] = (if c = 13 then [10] else [c])"
| "universal_newlines (c # d # cs) =
     (if c = 13 then
        (if d = 10 then 10 # universal_newlines cs else 10 # universal_newlines (d # cs))
      else c # universal_newlines (d # cs))"

text \<open>The file system after \<open>content\<close> has been written to \<open>path\<close> and the file closed.\<close>

definition written :: "filesystem \<Rightarrow> str \<Rightarrow> str \<Rightarrow> filesystem" where
  "written fs path content =
     fs\<lparr>path_exists := (path_exists fs)(path := True),
        read_text := (read_text fs)(path := Inr (universal_newlines content))\<rparr>"

text \<open>
  \<open>f.readlines()\<close> cuts the text after every line feed (code point 10) and keeps the
  line feed in the line.
\<close>

fun readlines :: "str \<Rightarrow> str list" where
  "readlines [] = []"
| "readlines (c # cs) =
     (if c = 10 then [c] # readlines cs
      else (case readlines cs of [] \<Rightarrow> [[c]] | l # ls \<Rightarrow> (c # l) # ls))"

text \<open>What the functions hand to \<open>logger\<close>.\<close>

datatype log_entry =
    Warning_cookie_empty str
  | Warning_not_a_cookie str str
  | Warning_cache_missing str
  | Info_cache_saved str

text \<open>
  A Python \<open>dict\<close> is an association list with distinct keys in insertion order;
  \<open>d[k] = v\<close> is \<open>AList.update k v d\<close>.
\<close>

type_synonym cookie_dict = "(str \<times> str) list"

text \<open>
  The body of \<open>for line in cookies\<close> in \<open>load_cookie_cache\<close>. The warning of the first
  branch formats \<open>line[0]\<close>, which raises IndexError when the split gave no field.
\<close>

fun load_loop ::
  "str list \<Rightarrow> cookie_dict \<Rightarrow> log_entry list \<Rightarrow> log_entry list \<times> (fault + cookie_dict)"
where
  "load_loop [] cookie_dict lg = (lg, Inr cookie_dict)"
| "load_loop (l # ls) cookie_dict lg =
     (let line = split_None_1 (strip l) in
      if length line \<noteq> 2 then
        (case line of
           [] \<Rightarrow> (lg, Inl IndexError)
         | name # _ \<Rightarrow> load_loop ls cookie_dict (lg @ [Warning_cookie_empty name]))
      else if \<not> fullmatch_uuid (line ! 1) then
        load_loop ls cookie_dict (lg @ [Warning_not_a_cookie (line ! 0) (line ! 1)])
      else load_loop ls (AList.update (line ! 0) (line ! 1) cookie_dict) lg)"

definition load_cookie_cache ::
  "filesystem \<Rightarrow> str \<Rightarrow> log_entry list \<times> (fault + cookie_dict)"
where
  "load_cookie_cache fs path =
     (if path_exists fs path then
        (case read_text fs path of
           Inl err \<Rightarrow> ([], Inl err)
         | Inr content \<Rightarrow> load_loop (readlines content) [] [])
      else ([Warning_cache_missing path], Inr []))"

text \<open>\<open>save_cookie_cache\<close>: one line \<open>f'{name} {cookie}\n'\<close> per item, in dict order.\<close>

definition cache_line :: "str \<times> str \<Rightarrow> str" where
  "cache_line item = fst item @ [32] @ snd item @ [10]"

definition save_cookie_cache ::
  "filesystem \<Rightarrow> str \<Rightarrow> cookie_dict \<Rightarrow> log_entry list \<times> (fault + filesystem)"
where
  "save_cookie_cache fs path cookies =
     (case write_fault fs path of
        Some err \<Rightarrow> ([], Inl err)
      | None \<Rightarrow>
          ([Info_cache_saved path], Inr (written fs path (concat (map cache_line cookies)))))"

text \<open>
  Vocabulary for statements about the cache: a text free of whitespace, a name that
  survives as one field, and the warning that a dropped item leaves in the log.
\<close>

definition no_space :: "str \<Rightarrow> bool" where
  "no_space s = list_all (\<lambda>c. \<not> isspace c) s"

definition plain_name :: "str \<Rightarrow> bool" where
  "plain_name n \<longleftrightarrow> n \<noteq> [] \<and> no_space n"

definition cache_warning :: "str \<times> str \<Rightarrow> log_entry" where
  "cache_warning item =
     (if snd item = [] then Warning_cookie_empty (fst item)
      else Warning_not_a_cookie (fst item) (snd item))"

text \<open>A file system without any file, on which every path can be written.\<close>

definition empty_disk :: filesystem where
  "empty_disk =
     \<lparr>path_exists = (\<lambda>path. False), read_text = (\<lambda>path. Inl FileNotFoundError),
      write_fault = (\<lambda>path. None)\<rparr>"

text \<open>
  The token condition of the specification (section 6), in its words: a standard UUID,
  \<open>xxxxxxxx-xxxx-xxxx-xxxx-xxxxxxxxxxxx\<close>, of hex digits; and what narrows it in
  statements about the cache: a text without upper-case letters, and a text whose
  decimal digits (Unicode category Nd) are all among the ASCII digits 0 to 9.
\<close>

definition hex_digit :: "nat \<Rightarrow> bool" where
  "hex_digit c \<longleftrightarrow> (48 \<le> c \<and> c \<le> 57) \<or> (97 \<le> c \<and> c \<le> 102) \<or> (65 \<le> c \<and> c \<le> 70)"

definition valid_uuid :: "str \<Rightarrow> bool" where
  "valid_uuid s \<longleftrightarrow>
     length s = 36 \<and>
     list_all hex_digit (take 8 s) \<and> s ! 8 = 45 \<and>
     list_all hex_digit (take 4 (drop 9 s)) \<and> s ! 13 = 45 \<and>
     list_all hex_digit (take 4 (drop 14 s)) \<and> s ! 18 = 45 \<and>
     list_all hex_digit (take 4 (drop 19 s)) \<and> s ! 23 = 45 \<and>
     list_all hex_digit (drop 24 s)"

definition lower_case :: "str \<Rightarrow> bool" where
  "lower_case s = list_all (\<lambda>c. \<not> (65 \<le> c \<and> c \<le> 90)) s"

definition lower_uuid :: "str \<Rightarrow> bool" where
  "lower_uuid s \<longleftrightarrow> valid_uuid s \<and> lower_case s"

definition ascii_digits :: "str \<Rightarrow> bool" where
  "ascii_digits s = list_all (\<lambda>c. isdecimal c \<longrightarrow> 48 \<le> c \<and> c \<le> 57) s"

text \<open>
  Writing a dict and reading it back: \<open>save_cookie_cache\<close>, then \<open>load_cookie_cache\<close> on
  the file system that the write leaves. The result is the exception of the write, or
  what the read returns.
\<close>

definition round_trip :: "filesystem \<Rightarrow> str \<Rightarrow> cookie_dict \<Rightarrow> fault + cookie_dict" where
  "round_trip fs path cookies =
     (case save_cookie_cache fs path cookies of
        (lg, Inl err) \<Rightarrow> Inl err
      | (lg, Inr fs') \<Rightarrow> snd (load_cookie_cache fs' path))"

section \<open>JSON values, pattern searches and HTTP\<close>

text \<open>
  What \<open>json()\<close> and \<open>json.load\<close> return: \<open>None\<close>, booleans, integers, strings, lists
  and dicts (a dict as its items in order). JSON numbers are integers here.
\<close>

datatype json =
    JNull
  | JBool bool
  | JInt int
  | JStr str
  | JList "json list"
  | JObj "(str \<times> json) list"

text \<open>\<open>x.get(key)\<close>: a dict answers with the value or \<open>None\<close>; nothing else has \<open>get\<close>.\<close>

fun dict_get :: "json \<Rightarrow> str \<Rightarrow> fault + json" where
  "dict_get (JObj items) key = Inr (case map_of items key of Some v \<Rightarrow> v | None \<Rightarrow> JNull)"
| "dict_get _ key = Inl AttributeError"

text \<open>\<open>for i in x\<close>: a list gives its elements, a string its characters, a dict its keys.\<close>

fun iter_json :: "json \<Rightarrow> fault + json list" where
  "iter_json (JList xs) = Inr xs"
| "iter_json (JStr s) = Inr (map (\<lambda>c. JStr [c]) s)"
| "iter_json (JObj items) = Inr (map (\<lambda>item. JStr (fst item)) items)"
| "iter_json _ = Inl TypeError"

text \<open>The integer that arithmetic and \<open>&\<close> see: an \<open>int\<close>, or a \<open>bool\<close> as 0 or 1.\<close>

fun int_of_json :: "json \<Rightarrow> int option" where
  "int_of_json (JInt i) = Some i"
| "int_of_json (JBool b) = Some (if b then 1 else 0)"
| "int_of_json _ = None"

text \<open>\<open>x == n\<close> for an integer literal \<open>n\<close>, as a literal pattern of \<open>match\<close> tests it.\<close>

definition json_eq_int :: "json \<Rightarrow> int \<Rightarrow> bool" where
  "json_eq_int x n = (int_of_json x = Some n)"

text \<open>\<open>x[0]\<close>.\<close>

fun subscript_0 :: "json \<Rightarrow> fault + json" where
  "subscript_0 (JList []) = Inl IndexError"
| "subscript_0 (JList (x # xs)) = Inr x"
| "subscript_0 (JStr []) = Inl IndexError"
| "subscript_0 (JStr (c # cs)) = Inr (JStr [c])"
| "subscript_0 (JObj items) = Inl KeyError"
| "subscript_0 _ = Inl TypeError"

text \<open>
  The searches of \<open>re.findall(pattern, s)[0]\<close> that the code makes. The dot of a pattern
  matches every code point but the line feed. An empty result list raises IndexError
  at \<open>[0]\<close>.
\<close>

definition starts_with :: "str \<Rightarrow> str \<Rightarrow> bool" where
  "starts_with p s \<longleftrightarrow> take (length p) s = p"

text \<open>Pattern \<open>p(.*)\<close> for a literal \<open>p\<close>: what follows the first \<open>p\<close>, to the end of the line.\<close>

fun findall_rest_0 :: "str \<Rightarrow> str \<Rightarrow> fault + str" where
  "findall_rest_0 p [] = Inl IndexError"
| "findall_rest_0 p (c # cs) =
     (if starts_with p (c # cs)
      then Inr (takeWhile (\<lambda>x. x \<noteq> 10) (drop (length p) (c # cs)))
      else findall_rest_0 p cs)"

text \<open>
  Pattern \<open>p(.*?)d\<close> for a literal \<open>p\<close> and a delimiter \<open>d\<close>: at the first \<open>p\<close> that has
  a \<open>d\<close> later on its line, what stands between them.
\<close>

fun findall_lazy_0 :: "str \<Rightarrow> nat \<Rightarrow> str \<Rightarrow> fault + str" where
  "findall_lazy_0 p d [] = Inl IndexError"
| "findall_lazy_0 p d (c # cs) =
     (let rest = takeWhile (\<lambda>x. x \<noteq> 10) (drop (length p) (c # cs)) in
      if starts_with p (c # cs) \<and> d \<in> set rest
      then Inr (takeWhile (\<lambda>x. x \<noteq> d) rest)
      else findall_lazy_0 p d cs)"

text \<open>
  Pattern \<open>-(.*)X\<close> of \<open>sign\<close>, where X is the code point 22788 (U+5904): at the first
  hyphen that has an X later on its line, what stands between the hyphen and the last X
  of the line.
\<close>

fun findall_label_0 :: "str \<Rightarrow> fault + str" where
  "findall_label_0 [] = Inl IndexError"
| "findall_label_0 (c # cs) =
     (let line = takeWhile (\<lambda>x. x \<noteq> 10) cs in
      if c = 45 \<and> 22788 \<in> set line
      then Inr (rev (tl (dropWhile (\<lambda>x. x \<noteq> 22788) (rev line))))
      else findall_label_0 cs)"

text \<open>\<open>str(x)\<close> of a header value that may be \<open>None\<close>.\<close>

definition str_of_header :: "str option \<Rightarrow> str" where
  "str_of_header h = (case h of None \<Rightarrow> ascii ''None'' | Some v \<Rightarrow> v)"

text \<open>
  The requests that the client sends, one constructor for each call of \<open>self.rr.get\<close>
  and \<open>self.rr.post\<close>, with the values that the code puts into the request.
\<close>

datatype request =
    Get_findaddress
  | Get_toLoginPage json
  | Get_login_url str
  | Post_login_url str str nat nat str str
  | Get_service str
  | Get_auth_token str str
  | Get_resvinfo str str
  | Post_phone_login json str
  | Post_phone_sign json str
  | Get_pushplus str str "str + fault"

text \<open>
  A response: \<open>res.text\<close>, \<open>res.headers.get\<close>, and \<open>res.json()\<close> (\<open>None\<close> when the body
  is no JSON and \<open>json()\<close> raises). A request is answered or fails in transport.
\<close>

record response =
  body :: str
  header :: "str \<Rightarrow> str option"
  json_of :: "json option"

datatype reply = Unreachable | Reply response

datatype xpath_rule = Rule_lt | Rule_execution

text \<open>
  Everything outside the two source files: the portal (its reply may depend on the
  requests sent before), \<open>lxml\<close> (\<open>etree.HTML(text).xpath(rule)\<close>), the cipher of
  \<open>libs/rsa.py\<close>, \<open>urllib.parse.unquote\<close>, the calendar day, the seat tables under
  \<open>json/\<close> (absent, unreadable, or parsed), \<open>str.upper\<close> and \<open>str.lower\<close>, and the number
  of nested calls that the interpreter still allows.
\<close>

record env =
  server :: "request list \<Rightarrow> request \<Rightarrow> reply"
  html_xpath :: "str \<Rightarrow> xpath_rule \<Rightarrow> fault + str list"
  strEnc :: "str \<Rightarrow> fault + str"
  unquote :: "str \<Rightarrow> str"
  today :: str
  seat_files :: "str \<Rightarrow> (fault + json) option"
  str_upper :: "str \<Rightarrow> str"
  str_lower :: "str \<Rightarrow> str"
  recursion_limit :: nat

section \<open>The class ZWYT\<close>

text \<open>
  The fields of a \<open>ZWYT\<close> object that its methods read or write:
  \<open>self.cookies['ic-cookie']\<close>, \<open>self.urls['login_url']\<close> (a string, or \<open>None\<close> after a
  response without \<open>Location\<close>), and the requests sent through \<open>self.rr\<close> so far.
\<close>

record zwyt =
  name :: str
  username :: str
  password :: str
  pushplus_token :: str
  ic_cookie :: str
  login_url :: "str option"
  sent :: "request list"

definition ZWYT :: "str \<Rightarrow> str \<Rightarrow> str \<Rightarrow> str \<Rightarrow> str \<Rightarrow> zwyt" where
  "ZWYT nm sno pwd token cookie =
     \<lparr>name = nm, username = sno, password = pwd, pushplus_token = token,
      ic_cookie = cookie, login_url = Some [], sent = []\<rparr>"

text \<open>One call of \<open>self.rr.get\<close> or \<open>self.rr.post\<close>.\<close>

definition http :: "env \<Rightarrow> request \<Rightarrow> zwyt \<Rightarrow> (fault + response) \<times> zwyt" where
  "http e r s =
     (case server e (sent s) r of
        Unreachable \<Rightarrow> (Inl TransportError, s\<lparr>sent := sent s @ [r]\<rparr>)
      | Reply res \<Rightarrow> (Inr res, s\<lparr>sent := sent s @ [r]\<rparr>))"

text \<open>\<open>pushplus\<close>: one GET, its response ignored.\<close>

definition pushplus :: "env \<Rightarrow> str \<Rightarrow> str + fault \<Rightarrow> zwyt \<Rightarrow> (fault + unit) \<times> zwyt" where
  "pushplus e title content s =
     (case http e (Get_pushplus (pushplus_token s) title content) s of
        (Inl err, s1) \<Rightarrow> (Inl err, s1)
      | (Inr res, s1) \<Rightarrow> (Inr (), s1))"

text \<open>\<open>get_login_url\<close>.\<close>

definition get_login_url :: "env \<Rightarrow> zwyt \<Rightarrow> (fault + unit) \<times> zwyt" where
  "get_login_url e s =
     (case http e Get_findaddress s of
        (Inl err, s1) \<Rightarrow> (Inl err, s1)
      | (Inr res, s1) \<Rightarrow>
          (case json_of res of
             None \<Rightarrow> (Inl JSONDecodeError, s1)
           | Some j \<Rightarrow>
               (case dict_get j (ascii ''data'') of
                  Inl err \<Rightarrow> (Inl err, s1)
                | Inr address \<Rightarrow>
                    (case http e (Get_toLoginPage address) s1 of
                       (Inl err, s2) \<Rightarrow> (Inl err, s2)
                     | (Inr res2, s2) \<Rightarrow>
                         (Inr (), s2\<lparr>login_url := header res2 (ascii ''Location'')\<rparr>)))))"

text \<open>
  \<open>login\<close>, lines 290 to 294 (step 2): fetch the form at the login URL and read \<open>lt\<close>
  and \<open>execution\<close>.
\<close>

definition first_of :: "'a list \<Rightarrow> fault + 'a" where
  "first_of xs = (case xs of [] \<Rightarrow> Inl IndexError | x # _ \<Rightarrow> Inr x)"

definition fetch_login_form :: "env \<Rightarrow> str \<Rightarrow> zwyt \<Rightarrow> (fault + str \<times> str) \<times> zwyt" where
  "fetch_login_form e url s =
     (case http e (Get_login_url url) s of
        (Inl err, s1) \<Rightarrow> (Inl err, s1)
      | (Inr res, s1) \<Rightarrow>
          (case html_xpath e (body res) Rule_lt of
             Inl err \<Rightarrow> (Inl err, s1)
           | Inr lts \<Rightarrow>
               (case first_of lts of
                  Inl err \<Rightarrow> (Inl err, s1)
                | Inr lt \<Rightarrow>
                    (case html_xpath e (body res) Rule_execution of
                       Inl err \<Rightarrow> (Inl err, s1)
                     | Inr exs \<Rightarrow>
                         (case first_of exs of
                            Inl err \<Rightarrow> (Inl err, s1)
                          | Inr execution \<Rightarrow> (Inr (lt, execution), s1))))))"

text \<open>
  Lines 295 to 312 (steps 3 and 4): encrypt, post the form, read the ticket from the
  \<open>Location\<close> header. \<open>passwordReset\<close> has an empty body.
\<close>

definition passwordReset :: "zwyt \<Rightarrow> zwyt" where
  "passwordReset s = s"

fun contains :: "str \<Rightarrow> str \<Rightarrow> bool" where
  "contains p [] = (p = [])"
| "contains p (c # cs) = (starts_with p (c # cs) \<or> contains p cs)"

definition submit_credentials ::
  "env \<Rightarrow> str \<Rightarrow> str \<Rightarrow> str \<Rightarrow> zwyt \<Rightarrow> (fault + str) \<times> zwyt"
where
  "submit_credentials e url lt execution s =
     (case strEnc e (username s @ password s @ lt) of
        Inl err \<Rightarrow> (Inl err, s)
      | Inr rsa \<Rightarrow>
          (case http e (Post_login_url url rsa (length (username s))
                          (length (password s)) lt execution) s of
             (Inl err, s1) \<Rightarrow> (Inl err, s1)
           | (Inr res, s1) \<Rightarrow>
               (let s2 = (if contains [23494, 30721, 37325, 32622] (body res)
                          then passwordReset s1 else s1)
                in case findall_rest_0 (ascii ''ticket='')
                          (str_of_header (header res (ascii ''Location''))) of
                     Inl err \<Rightarrow> (Inl err, s2)
                   | Inr ticket \<Rightarrow> (Inr ticket, s2))))"

text \<open>
  Lines 314 to 320 (steps 4 and 5): the service URL with the ticket, and the \<open>uniToken\<close>
  and \<open>uuid\<close> of the \<open>Location\<close> header that answers it. \<open>unquote(None)\<close> raises TypeError.
\<close>

definition exchange_ticket ::
  "env \<Rightarrow> str \<Rightarrow> str \<Rightarrow> zwyt \<Rightarrow> (fault + str \<times> str) \<times> zwyt"
where
  "exchange_ticket e url ticket s =
     (case findall_rest_0 (ascii ''service='') url of
        Inl err \<Rightarrow> (Inl err, s)
      | Inr service \<Rightarrow>
          (case http e (Get_service (unquote e (service @ ascii ''?ticket='' @ ticket))) s of
             (Inl err, s1) \<Rightarrow> (Inl err, s1)
           | (Inr res, s1) \<Rightarrow>
               (case header res (ascii ''Location'') of
                  None \<Rightarrow> (Inl TypeError, s1)
                | Some loc \<Rightarrow>
                    (let location = unquote e loc in
                     case findall_rest_0 (ascii ''uniToken='') location of
                       Inl err \<Rightarrow> (Inl err, s1)
                     | Inr unitoken \<Rightarrow>
                         (case findall_lazy_0 (ascii ''uuid='') 38 location of
                            Inl err \<Rightarrow> (Inl err, s1)
                          | Inr uuid \<Rightarrow> (Inr (unitoken, uuid), s1))))))"

text \<open>
  Lines 321 to 337 (step 6): the token exchange and the assignment to
  \<open>self.cookies['ic-cookie']\<close>. \<open>re.findall\<close> raises TypeError for a header that is \<open>None\<close>.
\<close>

definition derive_cookie :: "env \<Rightarrow> str \<Rightarrow> str \<Rightarrow> zwyt \<Rightarrow> (fault + unit) \<times> zwyt" where
  "derive_cookie e unitoken uuid s =
     (case http e (Get_auth_token uuid unitoken) s of
        (Inl err, s1) \<Rightarrow> (Inl err, s1)
      | (Inr get_cookie_res, s1) \<Rightarrow>
          (case header get_cookie_res (ascii ''Set-Cookie'') of
             None \<Rightarrow> (Inl TypeError, s1)
           | Some icc \<Rightarrow>
               (case findall_lazy_0 (ascii ''ic-cookie='') 59 icc of
                  Inl err \<Rightarrow> (Inl err, s1)
                | Inr c \<Rightarrow> (Inr (), s1\<lparr>ic_cookie := c\<rparr>))))"

text \<open>
  Lines 290 to 339 in sequence; an exception of a step leaves \<open>login\<close> at once.
  \<open>httpx\<close> raises TypeError for a URL that is \<open>None\<close>.
\<close>

definition negotiate :: "env \<Rightarrow> zwyt \<Rightarrow> (fault + ReturnCode) \<times> zwyt" where
  "negotiate e s =
     (case login_url s of
        None \<Rightarrow> (Inl TypeError, s)
      | Some url \<Rightarrow>
          (case fetch_login_form e url s of
             (Inl err, s1) \<Rightarrow> (Inl err, s1)
           | (Inr (lt, execution), s1) \<Rightarrow>
               (case submit_credentials e url lt execution s1 of
                  (Inl err, s2) \<Rightarrow> (Inl err, s2)
                | (Inr ticket, s2) \<Rightarrow>
                    (case exchange_ticket e url ticket s2 of
                       (Inl err, s3) \<Rightarrow> (Inl err, s3)
                     | (Inr (unitoken, uuid), s3) \<Rightarrow>
                         (case derive_cookie e unitoken uuid s3 of
                            (Inl err, s4) \<Rightarrow> (Inl err, s4)
                          | (Inr u, s4) \<Rightarrow> (Inr SUCCESS, s4))))))"

text \<open>
  \<open>login\<close>: the fast path of line 280, the \<open>try\<close> around \<open>get_login_url\<close> whose handler
  returns \<open>GET_LOGIN_URL_FAILED\<close>, then the negotiation.
\<close>

definition login :: "env \<Rightarrow> bool \<Rightarrow> zwyt \<Rightarrow> (fault + ReturnCode) \<times> zwyt" where
  "login e force_login s =
     (if \<not> force_login \<and> ic_cookie s \<noteq> [] then (Inr LOGIN_SKIPED, s)
      else
        (case get_login_url e s of
           (Inl err, s1) \<Rightarrow> (Inr GET_LOGIN_URL_FAILED, s1)
         | (Inr u, s1) \<Rightarrow> negotiate e s1))"

section \<open>Reservations and sign-in\<close>

text \<open>
  The loop of \<open>get_ahead_reservation\<close> over \<open>res.get('data')\<close>, lines 423 to 430, with
  the condition of line 429 as the source writes it.
\<close>

fun scan_resv :: "json list \<Rightarrow> json list \<Rightarrow> fault + json list" where
  "scan_resv [] resv = Inr resv"
| "scan_resv (item # items) resv =
     (case dict_get item (ascii ''resvStatus'') of
        Inl err \<Rightarrow> Inl err
      | Inr status \<Rightarrow>
          (case int_of_json status of
             None \<Rightarrow> Inl TypeError
           | Some resvStatus \<Rightarrow>
               if (resvStatus AND 64 = 0) \<or> (resvStatus AND 2048 \<noteq> 0)
               then scan_resv items (resv @ [item])
               else scan_resv items resv))"

text \<open>
  The predicate of the specification (section 3), in its words: a record needs sign-in
  if and only if \<open>(bitmask & CHECKED_IN) == 0 OR (bitmask & TEMP_AWAY) != 0\<close>.
\<close>

definition CHECKED_IN :: int where
  "CHECKED_IN = 64"

definition TEMP_AWAY :: int where
  "TEMP_AWAY = 2048"

definition needsSignIn :: "int \<Rightarrow> bool" where
  "needsSignIn bitmask \<longleftrightarrow> (bitmask AND CHECKED_IN) = 0 \<or> (bitmask AND TEMP_AWAY) \<noteq> 0"

text \<open>The status that the loop reads from a record, and the predicate on a record.\<close>

definition resv_status :: "json \<Rightarrow> int option" where
  "resv_status item =
     (case dict_get item (ascii ''resvStatus'') of
        Inl err \<Rightarrow> None
      | Inr status \<Rightarrow> int_of_json status)"

definition record_needs_sign_in :: "json \<Rightarrow> bool" where
  "record_needs_sign_in item =
     (case resv_status item of None \<Rightarrow> False | Some bitmask \<Rightarrow> needsSignIn bitmask)"

text \<open>
  Lines 417 to 447 on the decoded response. The log line 440 subtracts from
  \<open>res.get("count")\<close>, which raises TypeError unless the count is a number.
\<close>

definition inspect_resv :: "json \<Rightarrow> fault + json option \<times> ReturnCode" where
  "inspect_resv res =
     (case dict_get res (ascii ''code'') of
        Inl err \<Rightarrow> Inl err
      | Inr code \<Rightarrow>
          if json_eq_int code 0 then
            (case dict_get res (ascii ''data'') of
               Inl err \<Rightarrow> Inl err
             | Inr data \<Rightarrow>
                 (case iter_json data of
                    Inl err \<Rightarrow> Inl err
                  | Inr items \<Rightarrow>
                      (case scan_resv items [] of
                         Inl err \<Rightarrow> Inl err
                       | Inr resv \<Rightarrow>
                           (case dict_get res (ascii ''count'') of
                              Inl err \<Rightarrow> Inl err
                            | Inr count \<Rightarrow>
                                (case int_of_json count of
                                   None \<Rightarrow> Inl TypeError
                                 | Some total_resv \<Rightarrow>
                                     (case resv of
                                        [] \<Rightarrow> Inr (None, NO_RESERVATION)
                                      | r # _ \<Rightarrow> Inr (Some r, SUCCESS)))))))
          else if json_eq_int code 300 then Inr (None, COOKIE_EXPIRED)
          else Inr (None, FAILED))"

definition get_ahead_reservation ::
  "env \<Rightarrow> zwyt \<Rightarrow> (fault + json option \<times> ReturnCode) \<times> zwyt"
where
  "get_ahead_reservation e s =
     (case http e (Get_resvinfo (today e) (ic_cookie s)) s of
        (Inl err, s1) \<Rightarrow> (Inl err, s1)
      | (Inr res, s1) \<Rightarrow>
          (case json_of res of
             None \<Rightarrow> (Inl JSONDecodeError, s1)
           | Some j \<Rightarrow> (inspect_resv j, s1)))"

text \<open>
  \<open>get_seat_resvDev_devSn\<close>: the loop over the seat table, then the whole function.
  The table is \<open>json/<prefix>.json\<close>, the prefix being the seat name up to its first
  hyphen; a prefix starting with M selects the table of the piano rooms.
\<close>

fun seat_loop :: "env \<Rightarrow> str \<Rightarrow> str \<Rightarrow> json list \<Rightarrow> json \<Rightarrow> fault + json" where
  "seat_loop e devName tag [] resvDev = Inr resvDev"
| "seat_loop e devName tag (i # rest) resvDev =
     (case dict_get i (ascii ''devName'') of
        Inl err \<Rightarrow> Inl err
      | Inr n \<Rightarrow>
          if n = JStr (str_upper e devName) \<or> n = JStr (str_lower e devName) then
            (if tag = ascii ''reserve'' then
               (case dict_get i (ascii ''devId'') of
                  Inl err \<Rightarrow> Inl err
                | Inr v \<Rightarrow> seat_loop e devName tag rest v)
             else if tag = ascii ''sign'' then
               (case dict_get i (ascii ''devSn'') of
                  Inl err \<Rightarrow> Inl err
                | Inr v \<Rightarrow> seat_loop e devName tag rest v)
             else seat_loop e devName tag rest resvDev)
          else seat_loop e devName tag rest resvDev)"

definition seat_path :: "str \<Rightarrow> str" where
  "seat_path filename = ascii ''json/'' @ filename @ ascii ''.json''"

definition get_seat_resvDev_devSn :: "env \<Rightarrow> json \<Rightarrow> str \<Rightarrow> fault + json" where
  "get_seat_resvDev_devSn e devName tag =
     (case devName of
        JStr dn \<Rightarrow>
          (case takeWhile (\<lambda>c. c \<noteq> 45) (strip dn) of
             [] \<Rightarrow> Inl IndexError
           | c0 # cs \<Rightarrow>
               (let filename = c0 # cs;
                    json_path =
                      (if c0 = 77 then seat_path [29748, 25151]
                       else if seat_files e (seat_path (str_lower e filename)) \<noteq> None
                       then seat_path (str_lower e filename)
                       else seat_path (str_upper e filename))
                in case seat_files e json_path of
                     None \<Rightarrow> Inl FileNotFoundError
                   | Some (Inl err) \<Rightarrow> Inl err
                   | Some (Inr json_data) \<Rightarrow>
                       (case dict_get json_data (ascii ''data'') of
                          Inl err \<Rightarrow> Inl err
                        | Inr data \<Rightarrow>
                            (case iter_json data of
                               Inl err \<Rightarrow> Inl err
                             | Inr items \<Rightarrow> seat_loop e dn tag items JNull))))
      | _ \<Rightarrow> Inl AttributeError)"

text \<open>
  \<open>sign\<close>, lines 540 to 567: what follows once the device login has answered with a
  \<open>data\<close>. The two messages are the portal's texts for success and for a repeated
  sign-in.
\<close>

definition msg_success :: str where
  "msg_success = [25805, 20316, 25104, 21151]"

definition msg_already_signed :: str where
  "msg_already_signed =
     [29992, 25143, 24050, 31614, 21040, 65292, 35831, 21247, 37325, 22797, 31614, 21040]"

definition sign_reserved :: "env \<Rightarrow> json \<Rightarrow> zwyt \<Rightarrow> (fault + ReturnCode) \<times> zwyt" where
  "sign_reserved e data s =
     (case dict_get data (ascii ''reserveInfo'') of
        Inl err \<Rightarrow> (Inl err, s)
      | Inr reserveInfo \<Rightarrow>
          if reserveInfo = JNull then (Inr NO_RESERVATION, s)
          else
            (case dict_get reserveInfo (ascii ''resvId'') of
               Inl err \<Rightarrow> (Inl err, s)
             | Inr resvId \<Rightarrow>
                 (case http e (Post_phone_sign resvId (ic_cookie s)) s of
                    (Inl err, s1) \<Rightarrow> (Inl err, s1)
                  | (Inr res2, s1) \<Rightarrow>
                      (case json_of res2 of
                         None \<Rightarrow> (Inl JSONDecodeError, s1)
                       | Some j \<Rightarrow>
                           (case dict_get j (ascii ''message'') of
                              Inl err \<Rightarrow> (Inl err, s1)
                            | Inr message \<Rightarrow>
                                if message = JStr msg_success then (Inr SUCCESS, s1)
                                else if message = JStr msg_already_signed
                                then (Inr ALREADY_SIGNED, s1)
                                else (Inr FAILED, s1))))))"

text \<open>
  \<open>sign\<close>. The first argument counts the nested calls that the interpreter still allows:
  \<open>sign\<close> calls itself at line 538, and a call beyond the limit raises RecursionError.
  \<open>re.findall\<close> raises TypeError for a message that is no string.
\<close>

fun sign_rec :: "nat \<Rightarrow> env \<Rightarrow> json \<Rightarrow> zwyt \<Rightarrow> (fault + ReturnCode) \<times> zwyt" where
  "sign_rec 0 e devName s = (Inl RecursionError, s)"
| "sign_rec (Suc depth) e devName s =
     (case get_seat_resvDev_devSn e devName (ascii ''sign'') of
        Inl err \<Rightarrow> (Inl err, s)
      | Inr devSn \<Rightarrow>
          (case http e (Post_phone_login devSn (ic_cookie s)) s of
             (Inl err, s1) \<Rightarrow> (Inl err, s1)
           | (Inr res1, s1) \<Rightarrow>
               (case json_of res1 of
                  None \<Rightarrow> (Inl JSONDecodeError, s1)
                | Some res1_data \<Rightarrow>
                    (case dict_get res1_data (ascii ''data'') of
                       Inl err \<Rightarrow> (Inl err, s1)
                     | Inr data \<Rightarrow>
                         if data = JNull then
                           (case dict_get res1_data (ascii ''message'') of
                              Inl err \<Rightarrow> (Inl err, s1)
                            | Inr (JStr message) \<Rightarrow>
                                (case findall_label_0 message of
                                   Inl err \<Rightarrow> (Inl err, s1)
                                 | Inr label \<Rightarrow> sign_rec depth e (JStr label) s1)
                            | Inr _ \<Rightarrow> (Inl TypeError, s1))
                         else sign_reserved e data s1))))"

definition sign :: "env \<Rightarrow> json \<Rightarrow> zwyt \<Rightarrow> (fault + ReturnCode) \<times> zwyt" where
  "sign e devName s = sign_rec (recursion_limit e) e devName s"

text \<open>\<open>sign_for_ahead_reservation\<close>.\<close>

definition sign_for_ahead_reservation :: "env \<Rightarrow> zwyt \<Rightarrow> (fault + ReturnCode) \<times> zwyt" where
  "sign_for_ahead_reservation e s =
     (case get_ahead_reservation e s of
        (Inl err, s1) \<Rightarrow> (Inl err, s1)
      | (Inr (resv, errc), s1) \<Rightarrow>
          if errc \<noteq> SUCCESS then (Inr errc, s1)
          else
            (case resv of
               None \<Rightarrow> (Inl AttributeError, s1)
             | Some r \<Rightarrow>
                 (case dict_get r (ascii ''resvDevInfoList'') of
                    Inl err \<Rightarrow> (Inl err, s1)
                  | Inr devs \<Rightarrow>
                      (case subscript_0 devs of
                         Inl err \<Rightarrow> (Inl err, s1)
                       | Inr dev \<Rightarrow>
                           (case dict_get dev (ascii ''devName'') of
                              Inl err \<Rightarrow> (Inl err, s1)
                            | Inr devName \<Rightarrow> sign e devName s1)))))"

text \<open>
  The response of lines 531 to 535: no \<open>data\<close>, and a message that holds a seat label
  between a hyphen and the code point 22788. The function returns the label of such a
  response.
\<close>

definition redirect_label :: "response \<Rightarrow> str option" where
  "redirect_label res =
     (case json_of res of
        None \<Rightarrow> None
      | Some j \<Rightarrow>
          (case dict_get j (ascii ''data'') of
             Inr JNull \<Rightarrow>
               (case dict_get j (ascii ''message'') of
                  Inr (JStr message) \<Rightarrow>
                    (case findall_label_0 message of Inr label \<Rightarrow> Some label | Inl err \<Rightarrow> None)
                | _ \<Rightarrow> None)
           | _ \<Rightarrow> None))"

text \<open>The number of device logins among the requests sent: one for every call of \<open>sign\<close>.\<close>

fun is_phone_login :: "request \<Rightarrow> bool" where
  "is_phone_login (Post_phone_login devSn cookie) = True"
| "is_phone_login _ = False"

definition phone_logins :: "zwyt \<Rightarrow> nat" where
  "phone_logins s = length (filter is_phone_login (sent s))"

section \<open>The control loop of \<open>sign.py\<close>\<close>

text \<open>
  One entry of \<open>infos\<close> as \<open>main\<close> reads it, and the two variables of \<open>main\<close> that
  outlive an identity.
\<close>

record student =
  stu_name :: str
  stu_sno :: str
  stu_pwd :: str
  stu_pushplus :: str
  stu_devName :: str
  stu_cookie :: "str option"

record main_state =
  external_cookies :: cookie_dict
  cookie_dirty :: bool

text \<open>
  What the loop did, in order: every call of \<open>login\<close> (with its \<open>force_login\<close>) and of
  \<open>sign_for_ahead_reservation\<close>, with what it returned or raised, and every arrival at
  the notification of line 73.
\<close>

datatype event =
    Login_call bool "fault + ReturnCode"
  | Sign_call "fault + ReturnCode"
  | Notify_call

text \<open>
  Lines 66 to 80, the body of \<open>for _ in range(2)\<close>: the login with what follows its
  return code, and (in \<open>try_sign\<close>) lines 78 to 80. The login and sign-in operations
  and the notification are arguments, so that the loop can be studied under every
  behaviour of theirs. The body ends in \<open>Inl\<close> when it leaves the loop: by \<open>break\<close> with
  the return code, or by an exception, which goes to the handler of line 86. It ends in
  \<open>Inr\<close>, with the new \<open>retc\<close>, when the loop goes on.
\<close>

definition try_sign ::
  "(zwyt \<Rightarrow> (fault + ReturnCode) \<times> zwyt) \<Rightarrow> event \<Rightarrow> zwyt \<Rightarrow> main_state \<Rightarrow>
   ((fault + ReturnCode) + ReturnCode) \<times> zwyt \<times> main_state \<times> event list"
where
  "try_sign sign_op login_event yy ms =
     (case sign_op yy of
        (Inl err, yy1) \<Rightarrow> (Inl (Inl err), yy1, ms, [login_event, Sign_call (Inl err)])
      | (Inr retc, yy1) \<Rightarrow>
          if retc = SUCCESS \<or> retc = ALREADY_SIGNED \<or> retc = NO_RESERVATION
          then (Inl (Inr retc), yy1, ms, [login_event, Sign_call (Inr retc)])
          else (Inr retc, yy1, ms, [login_event, Sign_call (Inr retc)]))"

definition attempt ::
  "(bool \<Rightarrow> zwyt \<Rightarrow> (fault + ReturnCode) \<times> zwyt) \<Rightarrow>
   (zwyt \<Rightarrow> (fault + ReturnCode) \<times> zwyt) \<Rightarrow> (zwyt \<Rightarrow> (fault + unit) \<times> zwyt) \<Rightarrow>
   ReturnCode \<Rightarrow> zwyt \<Rightarrow> main_state \<Rightarrow>
   ((fault + ReturnCode) + ReturnCode) \<times> zwyt \<times> main_state \<times> event list"
where
  "attempt login_op sign_op notify retc yy ms =
     (let force_login = (retc = COOKIE_EXPIRED) in
      case login_op force_login yy of
        (Inl err, yy1) \<Rightarrow> (Inl (Inl err), yy1, ms, [Login_call force_login (Inl err)])
      | (Inr retc1, yy1) \<Rightarrow>
          if retc1 = SUCCESS then
            try_sign sign_op (Login_call force_login (Inr retc1)) yy1
              (ms\<lparr>external_cookies :=
                     AList.update (name yy1) (ic_cookie yy1) (external_cookies ms),
                   cookie_dirty := True\<rparr>)
          else if retc1 = GET_LOGIN_URL_FAILED then
            (case notify yy1 of
               (Inl err, yy2) \<Rightarrow>
                 (Inl (Inl err), yy2, ms, [Login_call force_login (Inr retc1), Notify_call])
             | (Inr u, yy2) \<Rightarrow>
                 (Inl (Inr retc1), yy2, ms, [Login_call force_login (Inr retc1), Notify_call]))
          else try_sign sign_op (Login_call force_login (Inr retc1)) yy1 ms)"

text \<open>The loop, for any number of rounds; \<open>main\<close> runs two.\<close>

fun attempts ::
  "nat \<Rightarrow> (bool \<Rightarrow> zwyt \<Rightarrow> (fault + ReturnCode) \<times> zwyt) \<Rightarrow>
   (zwyt \<Rightarrow> (fault + ReturnCode) \<times> zwyt) \<Rightarrow> (zwyt \<Rightarrow> (fault + unit) \<times> zwyt) \<Rightarrow>
   ReturnCode \<Rightarrow> zwyt \<Rightarrow> main_state \<Rightarrow>
   (fault + ReturnCode) \<times> zwyt \<times> main_state \<times> event list"
where
  "attempts 0 login_op sign_op notify retc yy ms = (Inr retc, yy, ms, [])"
| "attempts (Suc n) login_op sign_op notify retc yy ms =
     (case attempt login_op sign_op notify retc yy ms of
        (Inl left, yy1, ms1, evs) \<Rightarrow> (left, yy1, ms1, evs)
      | (Inr retc1, yy1, ms1, evs) \<Rightarrow>
          (case attempts n login_op sign_op notify retc1 yy1 ms1 of
             (r, yy2, ms2, evs2) \<Rightarrow> (r, yy2, ms2, evs @ evs2)))"

definition trace_of ::
  "(fault + ReturnCode) \<times> zwyt \<times> main_state \<times> event list \<Rightarrow> event list"
where
  "trace_of r = snd (snd (snd r))"

text \<open>
  The notification of lines 73 and 74, sent only for a non-empty push token. Its title
  is the name, the seat and the text for a failed login; its content the text for a
  login link that could not be fetched.
\<close>

definition notify_login_failed :: "env \<Rightarrow> student \<Rightarrow> zwyt \<Rightarrow> (fault + unit) \<times> zwyt" where
  "notify_login_failed e stu yy =
     (if stu_pushplus stu \<noteq> [] then
        pushplus e (stu_name stu @ [32] @ stu_devName stu @ [32] @ [30331, 24405, 22833, 36133])
          (Inl [33719, 21462, 30331, 24405, 38142, 25509, 22833, 36133]) yy
      else (Inr (), yy))"

text \<open>
  Lines 56 to 90 for one identity: the cookie of the entry or of the cache, the object,
  the loop, and the handler, which notifies (when there is a push token) with the
  exception as content. An exception of that notification leaves \<open>main\<close>.
\<close>

definition process_identity ::
  "env \<Rightarrow> student \<Rightarrow> main_state \<Rightarrow> (fault + unit) \<times> main_state \<times> event list"
where
  "process_identity e stu ms =
     (let cookie = (case stu_cookie stu of
                      Some c \<Rightarrow> c
                    | None \<Rightarrow> (case map_of (external_cookies ms) (stu_name stu) of
                                 Some c \<Rightarrow> c
                               | None \<Rightarrow> []));
          yy = ZWYT (stu_name stu) (stu_sno stu) (stu_pwd stu) (stu_pushplus stu) cookie
      in case attempts 2 (login e) (sign_for_ahead_reservation e) (notify_login_failed e stu)
                SUCCESS yy ms of
           (Inr retc, yy1, ms1, tr) \<Rightarrow> (Inr (), ms1, tr)
         | (Inl err, yy1, ms1, tr) \<Rightarrow>
             if stu_pushplus stu \<noteq> [] then
               (case pushplus e
                       (stu_name stu @ [32] @ stu_devName stu @ [32] @ [31614, 21040, 22833, 36133])
                       (Inr err) yy1 of
                  (Inl err2, yy2) \<Rightarrow> (Inl err2, ms1, tr @ [Notify_call])
                | (Inr u, yy2) \<Rightarrow> (Inr (), ms1, tr @ [Notify_call]))
             else (Inr (), ms1, tr))"

text \<open>Counting in a record of the loop.\<close>

fun is_login_call :: "event \<Rightarrow> bool" where
  "is_login_call (Login_call f r) = True"
| "is_login_call _ = False"

fun is_sign_call :: "event \<Rightarrow> bool" where
  "is_sign_call (Sign_call r) = True"
| "is_sign_call _ = False"

text \<open>
  A record of the loop stops where it must: nothing but a notification follows a login
  that returned \<open>GET_LOGIN_URL_FAILED\<close>, and nothing follows a sign-in that returned
  \<open>SUCCESS\<close>, \<open>ALREADY_SIGNED\<close> or \<open>NO_RESERVATION\<close>.
\<close>

fun stops_in_time :: "event list \<Rightarrow> bool" where
  "stops_in_time [] = True"
| "stops_in_time (Login_call f (Inr GET_LOGIN_URL_FAILED) # rest) =
     list_all (\<lambda>ev. ev = Notify_call) rest"
| "stops_in_time (Sign_call (Inr SUCCESS) # rest) = (rest = [])"
| "stops_in_time (Sign_call (Inr ALREADY_SIGNED) # rest) = (rest = [])"
| "stops_in_time (Sign_call (Inr NO_RESERVATION) # rest) = (rest = [])"
| "stops_in_time (ev # rest) = stops_in_time rest"

section \<open>An example portal\<close>

text \<open>
  A small portal for concrete runs. It resolves the login URL, accepts the form, issues
  a ticket and the token \<open>example_token\<close>; it answers a reservation query with one active
  reservation of seat 101-011 when the cookie is that token and with code 300 otherwise;
  the terminal of seat 101-011 (serial SN-A) points to seat 102-001, whose terminal
  (serial SN-B) knows the reservation; and the sign-in succeeds.
\<close>

definition json_reply :: "json \<Rightarrow> reply" where
  "json_reply j = Reply \<lparr>body = [], header = (\<lambda>k. None), json_of = Some j\<rparr>"

definition header_reply :: "str \<Rightarrow> str \<Rightarrow> reply" where
  "header_reply h v =
     Reply \<lparr>body = [], header = (\<lambda>k. if k = h then Some v else None), json_of = None\<rparr>"

definition example_token :: str where
  "example_token = ascii ''01234567-89ab-cdef-0123-456789abcdef''"

definition example_resv :: json where
  "example_resv =
     JObj [(ascii ''resvStatus'', JInt 4),
           (ascii ''resvDevInfoList'', JList [JObj [(ascii ''devName'', JStr (ascii ''101-011''))]])]"

definition pointer_to :: "string \<Rightarrow> response" where
  "pointer_to seat =
     \<lparr>body = [], header = (\<lambda>k. None),
      json_of = Some (JObj [(ascii ''message'', JStr (ascii ''seat-'' @ ascii seat @ [22788]))])\<rparr>"

definition reserved_data :: json where
  "reserved_data = JObj [(ascii ''reserveInfo'', JObj [(ascii ''resvId'', JInt 7)])]"

fun example_portal :: "request \<Rightarrow> reply" where
  "example_portal Get_findaddress = json_reply (JObj [(ascii ''data'', JStr (ascii ''lib''))])"
| "example_portal (Get_toLoginPage a) =
     header_reply (ascii ''Location'') (ascii ''cas?service=lib/auth'')"
| "example_portal (Get_login_url u) =
     Reply \<lparr>body = ascii ''<form>'', header = (\<lambda>k. None), json_of = None\<rparr>"
| "example_portal (Post_login_url u r ul pl lt ex) =
     header_reply (ascii ''Location'') (ascii ''lib/auth?ticket=ST-1'')"
| "example_portal (Get_service u) =
     header_reply (ascii ''Location'') (ascii ''lib/#/?uuid=u1&uniToken=t1'')"
| "example_portal (Get_auth_token uu ut) =
     header_reply (ascii ''Set-Cookie'') (ascii ''ic-cookie='' @ example_token @ ascii ''; Path=/'')"
| "example_portal (Get_resvinfo d c) =
     (if c = example_token
      then json_reply (JObj [(ascii ''code'', JInt 0), (ascii ''count'', JInt 1),
                             (ascii ''data'', JList [example_resv])])
      else json_reply (JObj [(ascii ''code'', JInt 300)]))"
| "example_portal (Post_phone_login devSn c) =
     (if devSn = JStr (ascii ''SN-A'') then Reply (pointer_to ''102-001'')
      else json_reply (JObj [(ascii ''data'', reserved_data)]))"
| "example_portal (Post_phone_sign resvId c) =
     json_reply (JObj [(ascii ''message'', JStr msg_success)])"
| "example_portal (Get_pushplus t title content) = json_reply JNull"

definition example_seats :: "str \<Rightarrow> (fault + json) option" where
  "example_seats path =
     (if path = seat_path (ascii ''101'') then
        Some (Inr (JObj [(ascii ''data'',
          JList [JObj [(ascii ''devName'', JStr (ascii ''101-011'')), (ascii ''devId'', JInt 1),
                       (ascii ''devSn'', JStr (ascii ''SN-A''))]])]))
      else if path = seat_path (ascii ''102'') then
        Some (Inr (JObj [(ascii ''data'',
          JList [JObj [(ascii ''devName'', JStr (ascii ''102-001'')), (ascii ''devId'', JInt 2),
                       (ascii ''devSn'', JStr (ascii ''SN-B''))]])]))
      else if path = seat_path (ascii ''103'') then
        Some (Inr (JObj [(ascii ''data'',
          JList [JObj [(ascii ''devName'', JStr (ascii ''103-001'')), (ascii ''devId'', JInt 3),
                       (ascii ''devSn'', JStr (ascii ''SN-C''))]])]))
      else None)"

definition uses_example_seats :: "env \<Rightarrow> bool" where
  "uses_example_seats e \<longleftrightarrow>
     seat_files e = example_seats \<and> str_upper e = (\<lambda>s. s) \<and> str_lower e = (\<lambda>s. s)"

definition example_env :: env where
  "example_env =
     \<lparr>server = (\<lambda>history. example_portal),
      html_xpath = (\<lambda>doc rule. Inr [ascii ''v'']),
      strEnc = (\<lambda>plain. Inr plain),
      unquote = (\<lambda>s. s),
      today = ascii ''2025-02-17'',
      seat_files = example_seats,
      str_upper = (\<lambda>s. s),
      str_lower = (\<lambda>s. s),
      recursion_limit = 1000\<rparr>"

text \<open>The same portal serving a login page without the hidden field \<open>lt\<close>.\<close>

definition env_without_lt :: env where
  "env_without_lt =
     example_env\<lparr>html_xpath := (\<lambda>doc rule. case rule of Rule_lt \<Rightarrow> Inr [] | Rule_execution \<Rightarrow> Inr [ascii ''v''])\<rparr>"

text \<open>A portal that answers the reservation query with code 0, no record and no count.\<close>

definition env_without_count :: env where
  "env_without_count =
     example_env\<lparr>server := (\<lambda>history r.
        json_reply (JObj [(ascii ''code'', JInt 0), (ascii ''data'', JList [])]))\<rparr>"

text \<open>
  The same portal with a second detour: the terminal of seat 102-001 (serial SN-B)
  points on to seat 103-001, whose terminal knows the reservation.
\<close>

definition detour_portal :: "request \<Rightarrow> reply" where
  "detour_portal r =
     (case r of
        Post_phone_login devSn c \<Rightarrow>
          if devSn = JStr (ascii ''SN-B'') then Reply (pointer_to ''103-001'')
          else example_portal r
      | _ \<Rightarrow> example_portal r)"

definition env_two_detours :: env where
  "env_two_detours = example_env\<lparr>server := (\<lambda>history. detour_portal)\<rparr>"

text \<open>
  A portal whose terminals all point to seat 101-011, under an interpreter that allows
  four nested calls.
\<close>

definition env_redirecting :: env where
  "env_redirecting =
     example_env\<lparr>server := (\<lambda>history r. Reply (pointer_to ''101-011'')),
                 recursion_limit := 4\<rparr>"

definition example_zwyt :: "str \<Rightarrow> zwyt" where
  "example_zwyt cookie = ZWYT (ascii ''zhu'') (ascii ''2001'') (ascii ''pw'') [] cookie"

definition example_student :: student where
  "example_student =
     \<lparr>stu_name = ascii ''zhu'', stu_sno = ascii ''2001'', stu_pwd = ascii ''pw'',
      stu_pushplus = [], stu_devName = ascii ''101-011'', stu_cookie = Some (ascii ''stale'')\<rparr>"

section \<open>Properties of the token cache\<close>

lemma readlines_line:
  "10 \<notin> set l \<Longrightarrow> readlines (l @ 10 # rest) = (l @ [10]) # readlines rest"
  by (induction l) auto

lemma isspace_10: "isspace 10"
  by (simp add: isspace_def)

lemma isspace_32: "isspace 32"
  by (simp add: isspace_def)

lemma no_space_no_lf: "no_space s \<Longrightarrow> 10 \<notin> set s"
  using isspace_10 by (auto simp: no_space_def list_all_iff)

lemma readlines_cache_lines:
  "\<forall>item \<in> set d. no_space (fst item) \<and> no_space (snd item) \<Longrightarrow>
   readlines (concat (map cache_line d)) = map cache_line d"
proof (induction d)
  case Nil
  then show ?case by simp
next
  case (Cons item d)
  let ?rest = "concat (map cache_line d)"
  have shape: "cache_line item = (fst item @ 32 # snd item) @ [10]"
    by (simp add: cache_line_def)
  have "10 \<notin> set (fst item @ 32 # snd item)"
    using Cons.prems no_space_no_lf by auto
  then have "readlines ((fst item @ 32 # snd item) @ 10 # ?rest) =
      ((fst item @ 32 # snd item) @ [10]) # readlines ?rest"
    by (rule readlines_line)
  moreover have "readlines ?rest = map cache_line d"
    using Cons by simp
  ultimately show ?case by (simp add: shape)
qed

lemma dropWhile_keep: "s \<noteq> [] \<Longrightarrow> \<not> P (hd s) \<Longrightarrow> dropWhile P s = s"
  by (cases s) auto

lemma strip_padded:
  assumes "s \<noteq> []" "\<not> isspace (hd s)" "\<not> isspace (last s)" "list_all isspace ws"
  shows "strip (s @ ws) = s"
proof -
  have 1: "dropWhile isspace (s @ ws) = s @ ws"
    using assms(1,2) by (intro dropWhile_keep) auto
  have 2: "dropWhile isspace (rev ws @ rev s) = rev s"
  proof -
    have "dropWhile isspace (rev ws @ rev s) = dropWhile isspace (rev s)"
      using assms(4) by (intro dropWhile_append2) (auto simp: list_all_iff)
    also have "\<dots> = rev s"
      using assms(1,3) by (intro dropWhile_keep) (auto simp: hd_rev)
    finally show ?thesis .
  qed
  show ?thesis by (simp add: strip_def 1 2)
qed

lemma no_space_hd: "no_space s \<Longrightarrow> s \<noteq> [] \<Longrightarrow> \<not> isspace (hd s)"
  by (cases s) (auto simp: no_space_def)

lemma no_space_last: "no_space s \<Longrightarrow> s \<noteq> [] \<Longrightarrow> \<not> isspace (last s)"
  by (auto simp: no_space_def list_all_iff)

lemma strip_cache_line:
  assumes "plain_name n" "no_space t"
  shows "strip (cache_line (n, t)) = (if t = [] then n else n @ 32 # t)"
proof (cases "t = []")
  case True
  have "strip (n @ [32, 10]) = n"
    using assms(1) isspace_10 isspace_32
    by (intro strip_padded) (auto simp: plain_name_def no_space_hd no_space_last)
  then show ?thesis using True by (simp add: cache_line_def)
next
  case False
  have "strip ((n @ 32 # t) @ [10]) = n @ 32 # t"
    using assms False isspace_10
    by (intro strip_padded) (auto simp: plain_name_def no_space_hd no_space_last)
  then show ?thesis using False by (simp add: cache_line_def)
qed

lemma split_one_field:
  assumes "plain_name n"
  shows "split_None_1 n = [n]"
proof -
  have ne: "n \<noteq> []" and ns: "\<forall>c \<in> set n. \<not> isspace c"
    using assms by (auto simp: plain_name_def no_space_def list_all_iff)
  have a: "dropWhile isspace n = n"
    using ne ns by (intro dropWhile_keep) auto
  have b: "takeWhile (\<lambda>c. \<not> isspace c) n = n"
    using ns by (simp add: takeWhile_eq_all_conv)
  have c: "dropWhile (\<lambda>c. \<not> isspace c) n = []"
    using ns by (simp add: dropWhile_eq_Nil_conv)
  show ?thesis using ne by (simp add: split_None_1_def a b c)
qed

lemma split_two_fields:
  assumes "plain_name n" "no_space t" "t \<noteq> []"
  shows "split_None_1 (n @ 32 # t) = [n, t]"
proof -
  have a: "dropWhile isspace (n @ 32 # t) = n @ 32 # t"
    using assms(1) by (intro dropWhile_keep) (auto simp: plain_name_def no_space_hd)
  have b: "takeWhile (\<lambda>c. \<not> isspace c) (n @ 32 # t) = n"
    using assms(1) isspace_32
    by (intro takeWhile_tail[THEN trans]) (auto simp: plain_name_def no_space_def list_all_iff takeWhile_eq_all_conv)
  have c: "dropWhile (\<lambda>c. \<not> isspace c) (n @ 32 # t) = 32 # t"
    using assms(1) isspace_32
    by (simp add: dropWhile_append2 plain_name_def no_space_def list_all_iff)
  have d: "dropWhile isspace t = t"
    using no_space_hd[OF assms(2,3)] assms(3) by (intro dropWhile_keep)
  show ?thesis using assms(3) by (simp add: split_None_1_def a b c d isspace_32)
qed

lemma in_ranges_iff: "in_ranges rs c \<longleftrightarrow> (\<exists>r \<in> set rs. fst r \<le> c \<and> c \<le> snd r)"
  by (induction rs c rule: in_ranges.induct) auto

lemma isdecimal_bounds:
  "isdecimal c \<Longrightarrow>
     (48 \<le> c \<and> c \<le> 57) \<or> (1632 \<le> c \<and> c \<le> 4249) \<or> (6112 \<le> c \<and> c \<le> 7257) \<or> 42528 \<le> c"
  unfolding isdecimal_def in_ranges_iff decimal_ranges_def by (simp; linarith)

lemma uuid_class_not_space: "uuid_class c \<Longrightarrow> \<not> isspace c"
  using isdecimal_bounds[of c] by (auto simp: uuid_class_def isspace_def)

lemma list_all_take_drop:
  "list_all P (take n s) \<Longrightarrow> list_all P (drop n s) \<Longrightarrow> list_all P s"
  by (metis append_take_drop_id list_all_append)

lemma list_all_drop_Suc:
  "n < length s \<Longrightarrow> P (s ! n) \<Longrightarrow> list_all P (drop (Suc n) s) \<Longrightarrow> list_all P (drop n s)"
  by (simp add: Cons_nth_drop_Suc[symmetric])

lemma list_all_drop_take:
  "list_all P (take k (drop n s)) \<Longrightarrow> list_all P (drop (n + k) s) \<Longrightarrow> list_all P (drop n s)"
  by (metis add.commute drop_drop list_all_take_drop)

lemma fullmatch_uuid_all:
  assumes "fullmatch_uuid t" and cl: "\<And>c. uuid_class c \<Longrightarrow> P c" and h: "P 45"
  shows "list_all P t"
proof -
  have cl: "list_all uuid_class xs \<Longrightarrow> list_all P xs" for xs
    using cl by (auto simp: list_all_iff)
  have len: "length t = 36"
    and g1: "list_all uuid_class (take 8 t)" and h1: "t ! 8 = 45"
    and g2: "list_all uuid_class (take 4 (drop 9 t))" and h2: "t ! 13 = 45"
    and g3: "list_all uuid_class (take 4 (drop 14 t))" and h3: "t ! 18 = 45"
    and g4: "list_all uuid_class (take 4 (drop 19 t))" and h4: "t ! 23 = 45"
    and g5: "list_all uuid_class (drop 24 t)"
    using assms(1) unfolding fullmatch_uuid_def by blast+
  have "list_all P (drop (Suc 23) t)" using cl[OF g5] by simp
  then have "list_all P (drop 23 t)"
    using list_all_drop_Suc[of 23 t P] h h4 len by simp
  then have "list_all P (drop (19 + 4) t)" by simp
  then have "list_all P (drop 19 t)"
    using list_all_drop_take[of P 4 19 t] cl[OF g4] by blast
  then have "list_all P (drop (Suc 18) t)" by simp
  then have "list_all P (drop 18 t)"
    using list_all_drop_Suc[of 18 t P] h h3 len by simp
  then have "list_all P (drop (14 + 4) t)" by simp
  then have "list_all P (drop 14 t)"
    using list_all_drop_take[of P 4 14 t] cl[OF g3] by blast
  then have "list_all P (drop (Suc 13) t)" by simp
  then have "list_all P (drop 13 t)"
    using list_all_drop_Suc[of 13 t P] h h2 len by simp
  then have "list_all P (drop (9 + 4) t)" by simp
  then have "list_all P (drop 9 t)"
    using list_all_drop_take[of P 4 9 t] cl[OF g2] by blast
  then have "list_all P (drop (Suc 8) t)" by simp
  then have "list_all P (drop 8 t)"
    using list_all_drop_Suc[of 8 t P] h h1 len by simp
  then show "list_all P t"
    using list_all_take_drop[of P 8 t] cl[OF g1] by blast
qed

lemma uuid_no_space:
  assumes "fullmatch_uuid t"
  shows "no_space t"
proof -
  have "\<not> isspace (45::nat)" by (simp add: isspace_def)
  then have "list_all (\<lambda>c. \<not> isspace c) t"
    using fullmatch_uuid_all[of t "\<lambda>c. \<not> isspace c"] assms uuid_class_not_space by blast
  then show ?thesis by (simp add: no_space_def)
qed

lemma update_fresh: "k \<notin> fst ` set al \<Longrightarrow> AList.update k v al = al @ [(k, v)]"
  by (induction al) auto

lemma fold_update_fresh:
  "distinct (map fst es) \<Longrightarrow> fst ` set es \<inter> fst ` set acc = {} \<Longrightarrow>
   fold (\<lambda>item. AList.update (fst item) (snd item)) es acc = acc @ es"
proof (induction es arbitrary: acc)
  case Nil
  then show ?case by simp
next
  case (Cons e es)
  have "AList.update (fst e) (snd e) acc = acc @ [e]"
    using Cons.prems(2) by (simp add: update_fresh)
  moreover have "fold (\<lambda>item. AList.update (fst item) (snd item)) es (acc @ [e]) = (acc @ [e]) @ es"
    using Cons.prems by (intro Cons.IH) auto
  ultimately show ?case by simp
qed

lemma not_uuid_Nil: "\<not> fullmatch_uuid []"
  by (simp add: fullmatch_uuid_def)

lemma load_loop_step_empty:
  "plain_name n \<Longrightarrow>
   load_loop (cache_line (n, []) # ls) acc lg = load_loop ls acc (lg @ [Warning_cookie_empty n])"
  using strip_cache_line[of n "[]"] split_one_field[of n]
  by (simp add: no_space_def)

lemma load_loop_step_bad:
  "plain_name n \<Longrightarrow> no_space t \<Longrightarrow> t \<noteq> [] \<Longrightarrow> \<not> fullmatch_uuid t \<Longrightarrow>
   load_loop (cache_line (n, t) # ls) acc lg = load_loop ls acc (lg @ [Warning_not_a_cookie n t])"
  using strip_cache_line[of n t] split_two_fields[of n t]
  by simp

lemma load_loop_step_good:
  "plain_name n \<Longrightarrow> fullmatch_uuid t \<Longrightarrow>
   load_loop (cache_line (n, t) # ls) acc lg = load_loop ls (AList.update n t acc) lg"
  using strip_cache_line[of n t] split_two_fields[of n t] uuid_no_space[of t] not_uuid_Nil
  by auto

lemma load_loop_cache_lines:
  assumes "\<forall>item \<in> set d. plain_name (fst item) \<and> no_space (snd item)"
  shows "load_loop (map cache_line d) acc lg =
     (lg @ map cache_warning (filter (\<lambda>item. \<not> fullmatch_uuid (snd item)) d),
      Inr (fold (\<lambda>item. AList.update (fst item) (snd item))
             (filter (\<lambda>item. fullmatch_uuid (snd item)) d) acc))"
  using assms
proof (induction d arbitrary: acc lg)
  case Nil
  then show ?case by simp
next
  case (Cons item d)
  obtain n t where item: "item = (n, t)" by (cases item)
  have n: "plain_name n" and t: "no_space t" using Cons.prems item by auto
  have IH: "load_loop (map cache_line d) acc' lg' =
     (lg' @ map cache_warning (filter (\<lambda>item. \<not> fullmatch_uuid (snd item)) d),
      Inr (fold (\<lambda>item. AList.update (fst item) (snd item))
             (filter (\<lambda>item. fullmatch_uuid (snd item)) d) acc'))" for acc' lg'
    using Cons.prems by (intro Cons.IH) simp
  consider (empty) "t = []" | (bad) "t \<noteq> []" "\<not> fullmatch_uuid t" | (good) "fullmatch_uuid t"
    by blast
  then show ?case
  proof cases
    case empty
    then show ?thesis
      using load_loop_step_empty[OF n] IH not_uuid_Nil by (simp add: item cache_warning_def)
  next
    case bad
    then show ?thesis
      using load_loop_step_bad[OF n t] IH by (simp add: item cache_warning_def)
  next
    case good
    then show ?thesis
      using load_loop_step_good[OF n] IH by (simp add: item)
  qed
qed
lemma universal_newlines_id: "13 \<notin> set s \<Longrightarrow> universal_newlines s = s"
  by (induction s rule: universal_newlines.induct) auto

lemma isspace_13: "isspace 13"
  by (simp add: isspace_def)

lemma no_space_no_cr: "no_space s \<Longrightarrow> 13 \<notin> set s"
  using isspace_13 by (auto simp: no_space_def list_all_iff)

lemma cache_line_no_cr:
  "no_space (fst item) \<Longrightarrow> no_space (snd item) \<Longrightarrow> 13 \<notin> set (cache_line item)"
  using no_space_no_cr[of "fst item"] no_space_no_cr[of "snd item"] by (simp add: cache_line_def)

lemma cache_lines_no_cr:
  "\<forall>item \<in> set d. no_space (fst item) \<and> no_space (snd item) \<Longrightarrow>
   13 \<notin> set (concat (map cache_line d))"
  using cache_line_no_cr by auto

lemma load_written:
  "load_cookie_cache (written fs path content) path =
     load_loop (readlines (universal_newlines content)) [] []"
  by (simp add: load_cookie_cache_def written_def)

lemma load_after_save:
  assumes "distinct (map fst d)"
    and "\<forall>item \<in> set d. plain_name (fst item) \<and> no_space (snd item)"
    and "save_cookie_cache fs path d = (lg, Inr fs')"
  shows "load_cookie_cache fs' path =
     (map cache_warning (filter (\<lambda>item. \<not> fullmatch_uuid (snd item)) d),
      Inr (filter (\<lambda>item. fullmatch_uuid (snd item)) d))"
proof -
  have ns: "\<forall>item \<in> set d. no_space (fst item) \<and> no_space (snd item)"
    using assms(2) by (auto simp: plain_name_def)
  have fs': "fs' = written fs path (concat (map cache_line d))"
    using assms(3) by (auto simp: save_cookie_cache_def split: option.splits)
  have "distinct (map fst (filter (\<lambda>item. fullmatch_uuid (snd item)) d))"
    using assms(1) by (simp add: distinct_map_filter)
  then have "fold (\<lambda>item. AList.update (fst item) (snd item))
      (filter (\<lambda>item. fullmatch_uuid (snd item)) d) [] = [] @ filter (\<lambda>item. fullmatch_uuid (snd item)) d"
    by (intro fold_update_fresh) simp_all
  then show ?thesis
    using load_loop_cache_lines[OF assms(2), of "[]" "[]"] readlines_cache_lines[OF ns]
      universal_newlines_id[OF cache_lines_no_cr[OF ns]]
    by (simp add: fs' load_written)
qed

lemma ascii_digit_isdecimal: "48 \<le> c \<Longrightarrow> c \<le> 57 \<Longrightarrow> isdecimal c"
  by (simp add: isdecimal_def decimal_ranges_def)

lemma uuid_class_lower: "uuid_class c \<Longrightarrow> \<not> (65 \<le> c \<and> c \<le> 90)"
  using isdecimal_bounds[of c] by (auto simp: uuid_class_def)

lemma uuid_class_hex: "uuid_class c \<Longrightarrow> (isdecimal c \<longrightarrow> 48 \<le> c \<and> c \<le> 57) \<Longrightarrow> hex_digit c"
  by (auto simp: uuid_class_def hex_digit_def)

lemma hex_digit_class: "hex_digit c \<Longrightarrow> \<not> (65 \<le> c \<and> c \<le> 90) \<Longrightarrow> uuid_class c"
  using ascii_digit_isdecimal[of c] by (auto simp: uuid_class_def hex_digit_def)

lemma hex_digit_ascii: "hex_digit c \<Longrightarrow> isdecimal c \<longrightarrow> 48 \<le> c \<and> c \<le> 57"
  using isdecimal_bounds[of c] by (auto simp: hex_digit_def)

lemma set_take_drop_subset: "set (take k (drop n xs)) \<subseteq> set xs"
  by (meson in_set_dropD in_set_takeD subsetI)

lemma lower_uuid_fullmatch:
  assumes "lower_uuid t"
  shows "fullmatch_uuid t"
proof -
  have v: "valid_uuid t" and l: "lower_case t"
    using assms by (simp_all add: lower_uuid_def)
  have l': "list_all (\<lambda>c. \<not> (65 \<le> c \<and> c \<le> 90)) t"
    using l by (simp add: lower_case_def)
  have piece: "list_all hex_digit xs \<Longrightarrow> set xs \<subseteq> set t \<Longrightarrow> list_all uuid_class xs" for xs
    using l' hex_digit_class by (auto simp: list_all_iff)
  have len: "length t = 36"
    and g1: "list_all hex_digit (take 8 t)" and h1: "t ! 8 = 45"
    and g2: "list_all hex_digit (take 4 (drop 9 t))" and h2: "t ! 13 = 45"
    and g3: "list_all hex_digit (take 4 (drop 14 t))" and h3: "t ! 18 = 45"
    and g4: "list_all hex_digit (take 4 (drop 19 t))" and h4: "t ! 23 = 45"
    and g5: "list_all hex_digit (drop 24 t)"
    using v unfolding valid_uuid_def by blast+
  have "list_all uuid_class (take 8 t)" using g1 by (rule piece) (rule set_take_subset)
  moreover have "list_all uuid_class (take 4 (drop 9 t))"
    using g2 by (rule piece) (rule set_take_drop_subset)
  moreover have "list_all uuid_class (take 4 (drop 14 t))"
    using g3 by (rule piece) (rule set_take_drop_subset)
  moreover have "list_all uuid_class (take 4 (drop 19 t))"
    using g4 by (rule piece) (rule set_take_drop_subset)
  moreover have "list_all uuid_class (drop 24 t)"
    using g5 by (rule piece) (rule set_drop_subset)
  ultimately show ?thesis
    using len h1 h2 h3 h4 by (simp add: fullmatch_uuid_def)
qed

lemma fullmatch_ascii_digits_lower_uuid:
  assumes "fullmatch_uuid t" and "ascii_digits t"
  shows "lower_uuid t"
proof -
  have a: "list_all (\<lambda>c. isdecimal c \<longrightarrow> 48 \<le> c \<and> c \<le> 57) t"
    using assms(2) by (simp add: ascii_digits_def)
  have piece: "list_all uuid_class xs \<Longrightarrow> set xs \<subseteq> set t \<Longrightarrow> list_all hex_digit xs" for xs
    using a uuid_class_hex by (auto simp: list_all_iff)
  have len: "length t = 36"
    and g1: "list_all uuid_class (take 8 t)" and h1: "t ! 8 = 45"
    and g2: "list_all uuid_class (take 4 (drop 9 t))" and h2: "t ! 13 = 45"
    and g3: "list_all uuid_class (take 4 (drop 14 t))" and h3: "t ! 18 = 45"
    and g4: "list_all uuid_class (take 4 (drop 19 t))" and h4: "t ! 23 = 45"
    and g5: "list_all uuid_class (drop 24 t)"
    using assms(1) unfolding fullmatch_uuid_def by blast+
  have "list_all hex_digit (take 8 t)" using g1 by (rule piece) (rule set_take_subset)
  moreover have "list_all hex_digit (take 4 (drop 9 t))"
    using g2 by (rule piece) (rule set_take_drop_subset)
  moreover have "list_all hex_digit (take 4 (drop 14 t))"
    using g3 by (rule piece) (rule set_take_drop_subset)
  moreover have "list_all hex_digit (take 4 (drop 19 t))"
    using g4 by (rule piece) (rule set_take_drop_subset)
  moreover have "list_all hex_digit (drop 24 t)"
    using g5 by (rule piece) (rule set_drop_subset)
  ultimately have "valid_uuid t"
    using len h1 h2 h3 h4 by (simp add: valid_uuid_def)
  moreover have "lower_case t"
  proof -
    have "\<not> (65 \<le> (45::nat) \<and> (45::nat) \<le> 90)" by simp
    then have "list_all (\<lambda>c. \<not> (65 \<le> c \<and> c \<le> 90)) t"
      using fullmatch_uuid_all[of t "\<lambda>c. \<not> (65 \<le> c \<and> c \<le> 90)"] assms(1) uuid_class_lower
      by blast
    then show ?thesis by (simp add: lower_case_def)
  qed
  ultimately show ?thesis by (simp add: lower_uuid_def)
qed

lemma token_kept_iff:
  assumes "lower_uuid t \<or> (no_space t \<and> ascii_digits t)"
  shows "fullmatch_uuid t \<longleftrightarrow> lower_uuid t"
  using assms lower_uuid_fullmatch fullmatch_ascii_digits_lower_uuid by blast

lemma token_no_space:
  assumes "lower_uuid t \<or> (no_space t \<and> ascii_digits t)"
  shows "no_space t"
  using assms lower_uuid_fullmatch uuid_no_space by blast

lemma save_succeeds:
  assumes "save_cookie_cache fs path d = (lg, Inr fs')"
  shows "write_fault fs path = None" and "fs' = written fs path (concat (map cache_line d))"
    and "write_fault fs' path = None"
  using assms by (auto simp: save_cookie_cache_def written_def split: option.splits)

lemma save_when_writable:
  "write_fault fs path = None \<Longrightarrow>
   save_cookie_cache fs path d =
     ([Info_cache_saved path], Inr (written fs path (concat (map cache_line d))))"
  by (simp add: save_cookie_cache_def)

lemma round_trip_lower_uuid:
  assumes "distinct (map fst d)"
    and "\<forall>item \<in> set d. plain_name (fst item) \<and>
           (lower_uuid (snd item) \<or> (no_space (snd item) \<and> ascii_digits (snd item)))"
    and "write_fault fs path = None"
  shows "round_trip fs path d = Inr (filter (\<lambda>item. lower_uuid (snd item)) d)"
proof -
  have plain: "\<forall>item \<in> set d. plain_name (fst item) \<and> no_space (snd item)"
    using assms(2) token_no_space by blast
  have "filter (\<lambda>item. fullmatch_uuid (snd item)) d = filter (\<lambda>item. lower_uuid (snd item)) d"
    using assms(2) token_kept_iff by (intro filter_cong) auto
  then show ?thesis
    using load_after_save[OF assms(1) plain save_when_writable[OF assms(3)]]
    by (simp add: round_trip_def save_when_writable[OF assms(3)])
qed

lemma dropped_name_absent:
  assumes "distinct (map fst d)" and "item \<in> set d" and "\<not> P item"
  shows "map_of (filter P d) (fst item) = None"
proof -
  have "fst item \<notin> fst ` set (filter P d)"
  proof
    assume "fst item \<in> fst ` set (filter P d)"
    then obtain other where o: "other \<in> set d" "P other" "fst other = fst item" by auto
    have "other = item"
      using assms(1,2) o(1,3) by (metis eq_key_imp_eq_value prod.collapse)
    then show False using o(2) assms(3) by simp
  qed
  then show ?thesis by (simp add: map_of_eq_None_iff)
qed

lemma valid_uuid_example:
  "valid_uuid (ascii ''01234567-89ab-cdef-0123-456789abcdef'')"
  "lower_case (ascii ''01234567-89ab-cdef-0123-456789abcdef'')"
  by (simp_all add: ascii_def valid_uuid_def hex_digit_def lower_case_def)

lemma upper_uuid_example:
  "valid_uuid (ascii ''01234567-89AB-CDEF-0123-456789ABCDEF'')"
  "\<not> lower_case (ascii ''01234567-89AB-CDEF-0123-456789ABCDEF'')"
  "no_space (ascii ''01234567-89AB-CDEF-0123-456789ABCDEF'')"
  "ascii_digits (ascii ''01234567-89AB-CDEF-0123-456789ABCDEF'')"
  by (simp_all add: ascii_def valid_uuid_def hex_digit_def lower_case_def no_space_def isspace_def
      ascii_digits_def isdecimal_def decimal_ranges_def)

lemma expired_example:
  "\<not> valid_uuid (ascii ''expired'')"
  "no_space (ascii ''expired'')"
  "ascii_digits (ascii ''expired'')"
  by (simp_all add: ascii_def valid_uuid_def no_space_def isspace_def
      ascii_digits_def isdecimal_def decimal_ranges_def)

lemma name_examples:
  "plain_name (ascii ''zhu'')" "plain_name (ascii ''xiong'')" "plain_name (ascii ''li'')"
  by (simp_all add: ascii_def plain_name_def no_space_def isspace_def)

text \<open>
  Claim C7, with the conditions under which the code meets it. A dict whose names are
  non-empty and free of whitespace, and whose tokens are valid UUIDs written in lower
  case (or else texts without whitespace whose decimal digits are ASCII digits), is
  written, the write succeeding, and read back. The read returns the items whose token
  is a valid UUID in lower case, in order: the dict itself when every token is one. An
  item whose token is not a valid UUID is dropped: its name has no entry in the map
  read back. Every read of the written file, in whatever state of the file system still
  holds that file, returns the map of the round trip, so that two reads return
  identical maps. And the round trip is idempotent: the map read back, written again
  and read again, is returned as it is.
\<close>

theorem cookie_cache_round_trip:
  assumes "distinct (map fst d)"
    and "\<forall>item \<in> set d. plain_name (fst item) \<and>
           (lower_uuid (snd item) \<or> (no_space (snd item) \<and> ascii_digits (snd item)))"
    and "save_cookie_cache fs path d = (lg, Inr fs')"
  shows "round_trip fs path d = Inr (filter (\<lambda>item. lower_uuid (snd item)) d) \<and>
     ((\<forall>item \<in> set d. lower_uuid (snd item)) \<longrightarrow> round_trip fs path d = Inr d) \<and>
     (\<forall>item \<in> set d. \<not> valid_uuid (snd item) \<longrightarrow>
        (\<forall>kept. round_trip fs path d = Inr kept \<longrightarrow> map_of kept (fst item) = None)) \<and>
     (\<forall>fs2. path_exists fs2 path = path_exists fs' path \<and> read_text fs2 path = read_text fs' path \<longrightarrow>
        snd (load_cookie_cache fs2 path) = round_trip fs path d) \<and>
     (\<forall>kept. round_trip fs path d = Inr kept \<longrightarrow> round_trip fs' path kept = Inr kept)"
proof -
  let ?kept = "filter (\<lambda>item. lower_uuid (snd item)) d"
  note ok = save_succeeds[OF assms(3)]
  have rt: "round_trip fs path d = Inr ?kept"
    using assms(1,2) ok(1) by (rule round_trip_lower_uuid)
  have whole: "(\<forall>item \<in> set d. lower_uuid (snd item)) \<longrightarrow> round_trip fs path d = Inr d"
    using rt by simp
  have dropped: "\<forall>item \<in> set d. \<not> valid_uuid (snd item) \<longrightarrow>
        (\<forall>kept. round_trip fs path d = Inr kept \<longrightarrow> map_of kept (fst item) = None)"
  proof (intro ballI impI allI)
    fix item kept
    assume i: "item \<in> set d" "\<not> valid_uuid (snd item)" and k: "round_trip fs path d = Inr kept"
    have "\<not> lower_uuid (snd item)" using i(2) by (simp add: lower_uuid_def)
    then have "map_of ?kept (fst item) = None"
      using dropped_name_absent[OF assms(1) i(1), of "\<lambda>item. lower_uuid (snd item)"] by simp
    then show "map_of kept (fst item) = None" using rt k by simp
  qed
  have twice: "\<forall>fs2. path_exists fs2 path = path_exists fs' path \<and> read_text fs2 path = read_text fs' path \<longrightarrow>
        snd (load_cookie_cache fs2 path) = round_trip fs path d"
    using assms(3) by (simp add: load_cookie_cache_def round_trip_def)
  have again: "round_trip fs' path ?kept = Inr ?kept"
  proof -
    have "distinct (map fst ?kept)" using assms(1) by (simp add: distinct_map_filter)
    moreover have "\<forall>item \<in> set ?kept. plain_name (fst item) \<and>
           (lower_uuid (snd item) \<or> (no_space (snd item) \<and> ascii_digits (snd item)))"
      using assms(2) by simp
    ultimately have "round_trip fs' path ?kept = Inr (filter (\<lambda>item. lower_uuid (snd item)) ?kept)"
      using ok(3) by (rule round_trip_lower_uuid)
    then show ?thesis by simp
  qed
  have fixed: "\<forall>kept. round_trip fs path d = Inr kept \<longrightarrow> round_trip fs' path kept = Inr kept"
    using rt again by simp
  show ?thesis
    using rt whole dropped twice fixed by (intro conjI)
qed

theorem cookie_cache_round_trip_witness:
  "round_trip empty_disk (ascii ''cookie_cache'')
     [(ascii ''xiong'', ascii ''expired''),
      (ascii ''zhu'', ascii ''01234567-89ab-cdef-0123-456789abcdef''),
      (ascii ''li'', ascii ''01234567-89AB-CDEF-0123-456789ABCDEF'')] =
     Inr [(ascii ''zhu'', ascii ''01234567-89ab-cdef-0123-456789abcdef'')] \<and>
   map_of [(ascii ''zhu'', ascii ''01234567-89ab-cdef-0123-456789abcdef'')] (ascii ''xiong'') = None \<and>
   snd (load_cookie_cache
     (written empty_disk (ascii ''cookie_cache'')
        (concat (map cache_line
           [(ascii ''xiong'', ascii ''expired''),
            (ascii ''zhu'', ascii ''01234567-89ab-cdef-0123-456789abcdef''),
            (ascii ''li'', ascii ''01234567-89AB-CDEF-0123-456789ABCDEF'')])))
     (ascii ''cookie_cache'')) =
     Inr [(ascii ''zhu'', ascii ''01234567-89ab-cdef-0123-456789abcdef'')] \<and>
   round_trip
     (written empty_disk (ascii ''cookie_cache'')
        (concat (map cache_line
           [(ascii ''xiong'', ascii ''expired''),
            (ascii ''zhu'', ascii ''01234567-89ab-cdef-0123-456789abcdef''),
            (ascii ''li'', ascii ''01234567-89AB-CDEF-0123-456789ABCDEF'')])))
     (ascii ''cookie_cache'')
     [(ascii ''zhu'', ascii ''01234567-89ab-cdef-0123-456789abcdef'')] =
     Inr [(ascii ''zhu'', ascii ''01234567-89ab-cdef-0123-456789abcdef'')] \<and>
   round_trip empty_disk (ascii ''cookie_cache'')
     [(ascii ''zhu'', ascii ''01234567-89ab-cdef-0123-456789abcdef'')] =
     Inr [(ascii ''zhu'', ascii ''01234567-89ab-cdef-0123-456789abcdef'')]"
proof -
  let ?u = "ascii ''01234567-89ab-cdef-0123-456789abcdef''" and ?p = "ascii ''cookie_cache''"
  let ?up = "ascii ''01234567-89AB-CDEF-0123-456789ABCDEF''"
  let ?d = "[(ascii ''xiong'', ascii ''expired''), (ascii ''zhu'', ?u), (ascii ''li'', ?up)]"
  let ?d1 = "[(ascii ''zhu'', ?u)]"
  let ?fs = "written empty_disk ?p (concat (map cache_line ?d))"
  let ?fs1 = "written empty_disk ?p (concat (map cache_line ?d1))"
  have ne: "ascii ''xiong'' \<noteq> ascii ''zhu''" "ascii ''xiong'' \<noteq> ascii ''li''"
    "ascii ''zhu'' \<noteq> ascii ''li''"
    by (simp_all add: ascii_def)
  have lu: "lower_uuid ?u" "\<not> lower_uuid ?up" "\<not> lower_uuid (ascii ''expired'')"
    using valid_uuid_example upper_uuid_example(2) expired_example(1)
    by (simp_all add: lower_uuid_def)
  have a: "distinct (map fst ?d)" using ne by simp
  have b: "\<forall>item \<in> set ?d. plain_name (fst item) \<and>
      (lower_uuid (snd item) \<or> (no_space (snd item) \<and> ascii_digits (snd item)))"
    using lu(1) upper_uuid_example(3,4) expired_example(2,3) name_examples by simp
  have c: "save_cookie_cache empty_disk ?p ?d = ([Info_cache_saved ?p], Inr ?fs)"
    by (simp add: save_cookie_cache_def empty_disk_def)
  have a1: "distinct (map fst ?d1)" by simp
  have b1: "\<forall>item \<in> set ?d1. plain_name (fst item) \<and>
      (lower_uuid (snd item) \<or> (no_space (snd item) \<and> ascii_digits (snd item)))"
    using lu(1) name_examples by simp
  have c1: "save_cookie_cache empty_disk ?p ?d1 = ([Info_cache_saved ?p], Inr ?fs1)"
    by (simp add: save_cookie_cache_def empty_disk_def)
  have kept: "filter (\<lambda>item. lower_uuid (snd item)) ?d = ?d1"
    using lu by simp
  note big = cookie_cache_round_trip[OF a b c, unfolded kept]
  note small = cookie_cache_round_trip[OF a1 b1 c1]
  have r1: "round_trip empty_disk ?p ?d = Inr ?d1" using big by blast
  have r2: "map_of ?d1 (ascii ''xiong'') = None" using ne by simp
  have r3: "snd (load_cookie_cache ?fs ?p) = Inr ?d1" using big by metis
  have r4: "round_trip ?fs ?p ?d1 = Inr ?d1" using big by blast
  have r5: "round_trip empty_disk ?p ?d1 = Inr ?d1" using small lu(1) by simp
  show ?thesis using r1 r2 r3 r4 r5 by (intro conjI)
qed

text \<open>
  Claim C7 as stated fails on five inputs. A valid UUID stored under a name that holds a
  space is dropped (the line splits after the first word and the rest is no UUID); one
  stored under the empty name is dropped (the line has a single field); a valid UUID
  written with upper-case hex digits is dropped under a plain name. In the other
  direction, a token that is not a valid UUID is kept when it has the shape of one with
  a decimal digit outside ASCII (here U+0660), and a token that starts with a space is
  not dropped but read back without the space.
\<close>

theorem cookie_cache_round_trip_fails:
  "valid_uuid (ascii ''01234567-89ab-cdef-0123-456789abcdef'') \<and>
   round_trip empty_disk (ascii ''cookie_cache'')
     [(ascii ''zhu zhu'', ascii ''01234567-89ab-cdef-0123-456789abcdef'')] = Inr [] \<and>
   round_trip empty_disk (ascii ''cookie_cache'')
     [([], ascii ''01234567-89ab-cdef-0123-456789abcdef'')] = Inr [] \<and>
   valid_uuid (ascii ''01234567-89AB-CDEF-0123-456789ABCDEF'') \<and>
   round_trip empty_disk (ascii ''cookie_cache'')
     [(ascii ''zhu'', ascii ''01234567-89AB-CDEF-0123-456789ABCDEF'')] = Inr [] \<and>
   \<not> valid_uuid (1632 # ascii ''1234567-89ab-cdef-0123-456789abcdef'') \<and>
   round_trip empty_disk (ascii ''cookie_cache'')
     [(ascii ''zhu'', 1632 # ascii ''1234567-89ab-cdef-0123-456789abcdef'')] =
     Inr [(ascii ''zhu'', 1632 # ascii ''1234567-89ab-cdef-0123-456789abcdef'')] \<and>
   \<not> valid_uuid (32 # ascii ''01234567-89ab-cdef-0123-456789abcdef'') \<and>
   round_trip empty_disk (ascii ''cookie_cache'')
     [(ascii ''zhu'', 32 # ascii ''01234567-89ab-cdef-0123-456789abcdef'')] =
     Inr [(ascii ''zhu'', ascii ''01234567-89ab-cdef-0123-456789abcdef'')]"
proof -
  let ?p = "ascii ''cookie_cache''"
  have v: "valid_uuid (ascii ''01234567-89ab-cdef-0123-456789abcdef'')"
    by (simp add: ascii_def valid_uuid_def hex_digit_def)
  have space: "round_trip empty_disk ?p
     [(ascii ''zhu zhu'', ascii ''01234567-89ab-cdef-0123-456789abcdef'')] = Inr []"
    by (simp add: ascii_def fullmatch_uuid_def uuid_class_def isdecimal_def decimal_ranges_def
     round_trip_def load_cookie_cache_def save_cookie_cache_def written_def empty_disk_def
     cache_line_def strip_def split_None_1_def isspace_def)
  have noname: "round_trip empty_disk ?p
     [([], ascii ''01234567-89ab-cdef-0123-456789abcdef'')] = Inr []"
    by (simp add: ascii_def fullmatch_uuid_def uuid_class_def isdecimal_def decimal_ranges_def
     round_trip_def load_cookie_cache_def save_cookie_cache_def written_def empty_disk_def
     cache_line_def strip_def split_None_1_def isspace_def)
  have vu: "valid_uuid (ascii ''01234567-89AB-CDEF-0123-456789ABCDEF'')"
    by (simp add: ascii_def valid_uuid_def hex_digit_def)
  have upper: "round_trip empty_disk ?p
     [(ascii ''zhu'', ascii ''01234567-89AB-CDEF-0123-456789ABCDEF'')] = Inr []"
    by (simp add: ascii_def fullmatch_uuid_def uuid_class_def isdecimal_def decimal_ranges_def
     round_trip_def load_cookie_cache_def save_cookie_cache_def written_def empty_disk_def
     cache_line_def strip_def split_None_1_def isspace_def)
  have nd: "\<not> valid_uuid (1632 # ascii ''1234567-89ab-cdef-0123-456789abcdef'')"
    by (simp add: ascii_def valid_uuid_def hex_digit_def)
  have digit: "round_trip empty_disk ?p
     [(ascii ''zhu'', 1632 # ascii ''1234567-89ab-cdef-0123-456789abcdef'')] =
     Inr [(ascii ''zhu'', 1632 # ascii ''1234567-89ab-cdef-0123-456789abcdef'')]"
    by (simp add: ascii_def fullmatch_uuid_def uuid_class_def isdecimal_def decimal_ranges_def
     round_trip_def load_cookie_cache_def save_cookie_cache_def written_def empty_disk_def
     cache_line_def strip_def split_None_1_def isspace_def)
  have np: "\<not> valid_uuid (32 # ascii ''01234567-89ab-cdef-0123-456789abcdef'')"
    by (simp add: ascii_def valid_uuid_def)
  have padded: "round_trip empty_disk ?p
     [(ascii ''zhu'', 32 # ascii ''01234567-89ab-cdef-0123-456789abcdef'')] =
     Inr [(ascii ''zhu'', ascii ''01234567-89ab-cdef-0123-456789abcdef'')]"
    by (simp add: ascii_def fullmatch_uuid_def uuid_class_def isdecimal_def decimal_ranges_def
     round_trip_def load_cookie_cache_def save_cookie_cache_def written_def empty_disk_def
     cache_line_def strip_def split_None_1_def isspace_def)
  show ?thesis
    using v space noname vu upper nd digit np padded by (intro conjI)
qed

text \<open>
  Claim C8: a blank line is to be skipped with a warning. The code splits it into no
  field at all and then formats \<open>line[0]\<close> for the warning: the load stops with
  IndexError, here on a file with one good line followed by an empty line.
\<close>

theorem load_cookie_cache_blank_line:
  "load_cookie_cache
     (written empty_disk (ascii ''cookie_cache'')
        (ascii ''zhu 01234567-89ab-cdef-0123-456789abcdef'' @ [10, 10]))
     (ascii ''cookie_cache'') = ([], Inl IndexError)"
  by (simp add: ascii_def fullmatch_uuid_def uuid_class_def isdecimal_def decimal_ranges_def
     load_cookie_cache_def written_def empty_disk_def strip_def split_None_1_def isspace_def)



section \<open>Properties of the control loop\<close>

lemma try_sign_events:
  assumes "try_sign S (Login_call f (Inr rc1)) yy ms = (x, yy1, ms1, evs)"
    and "rc1 \<noteq> GET_LOGIN_URL_FAILED"
  shows "length (filter is_login_call evs) = 1 \<and> length (filter is_sign_call evs) = 1 \<and>
     (case x of Inl left \<Rightarrow> stops_in_time evs
      | Inr retc \<Rightarrow> (\<forall>rest. stops_in_time (evs @ rest) = stops_in_time rest))"
proof (cases "S yy")
  case (Pair r yy')
  show ?thesis
  proof (cases r)
    case (Inl err)
    with Pair assms show ?thesis
      by (cases rc1) (auto simp: try_sign_def)
  next
    case (Inr rc2)
    with Pair assms show ?thesis
      by (cases rc1; cases rc2) (auto simp: try_sign_def)
  qed
qed

lemma attempt_events:
  assumes "attempt L S N retc yy ms = (x, yy1, ms1, evs)"
  shows "length (filter is_login_call evs) = 1 \<and> length (filter is_sign_call evs) \<le> 1 \<and>
     (case x of Inl left \<Rightarrow> stops_in_time evs
      | Inr retc \<Rightarrow> (\<forall>rest. stops_in_time (evs @ rest) = stops_in_time rest))"
proof (cases "L (retc = COOKIE_EXPIRED) yy")
  case (Pair r yy')
  show ?thesis
  proof (cases r)
    case (Inl err)
    with Pair assms show ?thesis by (auto simp: attempt_def Let_def)
  next
    case (Inr rc1)
    show ?thesis
    proof (cases "rc1 = GET_LOGIN_URL_FAILED")
      case True
      obtain q yy2 where n: "N yy' = (q, yy2)" by (cases "N yy'")
      with True Pair Inr assms show ?thesis
        by (cases q) (auto simp: attempt_def Let_def)
    next
      case False
      have "try_sign S (Login_call (retc = COOKIE_EXPIRED) (Inr rc1)) yy'
              (if rc1 = SUCCESS
               then ms\<lparr>external_cookies := AList.update (name yy') (ic_cookie yy') (external_cookies ms),
                       cookie_dirty := True\<rparr>
               else ms) = (x, yy1, ms1, evs)"
        using Pair Inr assms False by (simp add: attempt_def Let_def split: if_splits)
      from try_sign_events[OF this False] show ?thesis by simp
    qed
  qed
qed

lemma attempts_events:
  "length (filter is_login_call (trace_of (attempts n L S N retc yy ms))) \<le> n \<and>
   length (filter is_sign_call (trace_of (attempts n L S N retc yy ms))) \<le> n \<and>
   stops_in_time (trace_of (attempts n L S N retc yy ms))"
proof (induction n arbitrary: retc yy ms)
  case 0
  then show ?case by (simp add: trace_of_def)
next
  case (Suc n)
  obtain x yy1 ms1 evs where a: "attempt L S N retc yy ms = (x, yy1, ms1, evs)"
    by (metis prod_cases4)
  note ev = attempt_events[OF a]
  show ?case
  proof (cases x)
    case (Inl left)
    then show ?thesis using a ev by (simp add: trace_of_def)
  next
    case (Inr retc1)
    obtain r yy2 ms2 evs2 where b: "attempts n L S N retc1 yy1 ms1 = (r, yy2, ms2, evs2)"
      by (metis prod_cases4)
    have "trace_of (attempts (Suc n) L S N retc yy ms) = evs @ evs2"
      using a b Inr by (simp add: trace_of_def)
    moreover have "length (filter is_login_call evs2) \<le> n \<and> length (filter is_sign_call evs2) \<le> n \<and>
      stops_in_time evs2"
      using Suc.IH[of retc1 yy1 ms1] b by (simp add: trace_of_def)
    ultimately show ?thesis using ev Inr by simp
  qed
qed

section \<open>Properties of the sign-in\<close>

lemma http_sent: "http e r s = (x, s1) \<Longrightarrow> sent s1 = sent s @ [r] \<and> ic_cookie s1 = ic_cookie s"
  by (auto simp: http_def split: reply.splits)

lemma redirect_labelD:
  assumes "redirect_label res = Some label"
  shows "\<exists>j m. json_of res = Some j \<and> dict_get j (ascii ''data'') = Inr JNull \<and>
     dict_get j (ascii ''message'') = Inr (JStr m) \<and> findall_label_0 m = Inr label"
  using assms unfolding redirect_label_def
  by (auto split: option.splits sum.splits json.splits)

lemma sign_rec_redirect:
  assumes "get_seat_resvDev_devSn e devName (ascii ''sign'') = Inr devSn"
    and "http e (Post_phone_login devSn (ic_cookie s)) s = (Inr res1, s1)"
    and "redirect_label res1 = Some label"
  shows "sign_rec (Suc depth) e devName s = sign_rec depth e (JStr label) s1"
proof -
  obtain j m where "json_of res1 = Some j" "dict_get j (ascii ''data'') = Inr JNull"
    "dict_get j (ascii ''message'') = Inr (JStr m)" "findall_label_0 m = Inr label"
    using redirect_labelD[OF assms(3)] by blast
  then show ?thesis using assms(1,2) by simp
qed

lemma sign_rec_reserved:
  assumes "get_seat_resvDev_devSn e devName (ascii ''sign'') = Inr devSn"
    and "http e (Post_phone_login devSn (ic_cookie s)) s = (Inr res1, s1)"
    and "json_of res1 = Some j" and "dict_get j (ascii ''data'') = Inr data" and "data \<noteq> JNull"
  shows "sign_rec (Suc depth) e devName s = sign_reserved e data s1"
  using assms by simp

lemma phone_logins_http:
  "http e (Post_phone_login devSn c) s = (x, s1) \<Longrightarrow> phone_logins s1 = Suc (phone_logins s)"
  by (auto simp: phone_logins_def dest!: http_sent)

lemma phone_logins_sign_reserved:
  "phone_logins (snd (sign_reserved e data s)) = phone_logins s"
  by (auto simp: sign_reserved_def phone_logins_def split: sum.splits prod.splits option.splits dest!: http_sent)

lemma sign_rec_unbounded:
  assumes seat: "get_seat_resvDev_devSn e (JStr label) (ascii ''sign'') = Inr devSn"
    and portal: "\<And>h r. \<exists>res. server e h r = Reply res \<and> redirect_label res = Some label"
  shows "fst (sign_rec n e (JStr label) s) = Inl RecursionError \<and>
         phone_logins (snd (sign_rec n e (JStr label) s)) = phone_logins s + n"
proof (induction n arbitrary: s)
  case 0
  then show ?case by simp
next
  case (Suc n)
  obtain res where b: "server e (sent s) (Post_phone_login devSn (ic_cookie s)) = Reply res"
    and c: "redirect_label res = Some label"
    using portal by blast
  let ?s1 = "s\<lparr>sent := sent s @ [Post_phone_login devSn (ic_cookie s)]\<rparr>"
  have h: "http e (Post_phone_login devSn (ic_cookie s)) s = (Inr res, ?s1)"
    using b by (simp add: http_def)
  have "sign_rec (Suc n) e (JStr label) s = sign_rec n e (JStr label) ?s1"
    using seat h c by (rule sign_rec_redirect)
  moreover have "phone_logins ?s1 = Suc (phone_logins s)"
    using h by (rule phone_logins_http)
  ultimately show ?case using Suc.IH[of ?s1] by simp
qed

section \<open>Runs against the example portal\<close>

lemma example_seat_A:
  "uses_example_seats e \<Longrightarrow>
   get_seat_resvDev_devSn e (JStr (ascii ''101-011'')) (ascii ''sign'') = Inr (JStr (ascii ''SN-A''))"
  by (simp add: uses_example_seats_def get_seat_resvDev_devSn_def strip_def isspace_def ascii_def
      example_seats_def seat_path_def)

lemma example_seat_B:
  "uses_example_seats e \<Longrightarrow>
   get_seat_resvDev_devSn e (JStr (ascii ''102-001'')) (ascii ''sign'') = Inr (JStr (ascii ''SN-B''))"
  by (simp add: uses_example_seats_def get_seat_resvDev_devSn_def strip_def isspace_def ascii_def
      example_seats_def seat_path_def)

lemma example_seat_C:
  "uses_example_seats e \<Longrightarrow>
   get_seat_resvDev_devSn e (JStr (ascii ''103-001'')) (ascii ''sign'') = Inr (JStr (ascii ''SN-C''))"
  by (simp add: uses_example_seats_def get_seat_resvDev_devSn_def strip_def isspace_def ascii_def
      example_seats_def seat_path_def)

lemma example_envs_seats:
  "uses_example_seats example_env" "uses_example_seats env_two_detours"
  "uses_example_seats env_redirecting"
  by (simp_all add: uses_example_seats_def example_env_def env_two_detours_def env_redirecting_def)

lemma label_101: "redirect_label (pointer_to ''101-011'') = Some (ascii ''101-011'')"
  by (simp add: redirect_label_def pointer_to_def ascii_def)

lemma label_102: "redirect_label (pointer_to ''102-001'') = Some (ascii ''102-001'')"
  by (simp add: redirect_label_def pointer_to_def ascii_def)

lemma label_103: "redirect_label (pointer_to ''103-001'') = Some (ascii ''103-001'')"
  by (simp add: redirect_label_def pointer_to_def ascii_def)

lemma http_reply:
  "server e (sent s) r = Reply res \<Longrightarrow> http e r s = (Inr res, s\<lparr>sent := sent s @ [r]\<rparr>)"
  by (simp add: http_def)

lemma sign_reserved_example:
  assumes "server e (sent s) (Post_phone_sign (JInt 7) (ic_cookie s)) =
             json_reply (JObj [(ascii ''message'', JStr msg_success)])"
  shows "sign_reserved e reserved_data s =
     (Inr SUCCESS, s\<lparr>sent := sent s @ [Post_phone_sign (JInt 7) (ic_cookie s)]\<rparr>)"
  using assms by (simp add: sign_reserved_def reserved_data_def http_def json_reply_def)

lemma sign_rec_data_example:
  assumes "get_seat_resvDev_devSn e devName (ascii ''sign'') = Inr devSn"
    and "server e (sent s) (Post_phone_login devSn (ic_cookie s)) =
           json_reply (JObj [(ascii ''data'', reserved_data)])"
  shows "sign_rec (Suc depth) e devName s =
     sign_reserved e reserved_data (s\<lparr>sent := sent s @ [Post_phone_login devSn (ic_cookie s)]\<rparr>)"
proof -
  have h: "http e (Post_phone_login devSn (ic_cookie s)) s =
      (Inr \<lparr>body = [], header = (\<lambda>k. None), json_of = Some (JObj [(ascii ''data'', reserved_data)])\<rparr>,
       s\<lparr>sent := sent s @ [Post_phone_login devSn (ic_cookie s)]\<rparr>)"
    using assms(2) by (simp add: http_def json_reply_def)
  have j: "json_of \<lparr>body = [], header = (\<lambda>k. None), json_of = Some (JObj [(ascii ''data'', reserved_data)])\<rparr> =
      Some (JObj [(ascii ''data'', reserved_data)])" by simp
  have d: "dict_get (JObj [(ascii ''data'', reserved_data)]) (ascii ''data'') = Inr reserved_data"
    by simp
  have nn: "reserved_data \<noteq> JNull" by (simp add: reserved_data_def)
  show ?thesis using assms(1) h j d nn by (rule sign_rec_reserved)
qed

lemma example_sign:
  assumes "ic_cookie s = c"
  shows "sign example_env (JStr (ascii ''101-011'')) s =
     (Inr SUCCESS, s\<lparr>sent := sent s @
        [Post_phone_login (JStr (ascii ''SN-A'')) c,
         Post_phone_login (JStr (ascii ''SN-B'')) c,
         Post_phone_sign (JInt 7) c]\<rparr>)"
proof -
  let ?e = example_env
  let ?s1 = "s\<lparr>sent := sent s @ [Post_phone_login (JStr (ascii ''SN-A'')) (ic_cookie s)]\<rparr>"
  let ?s2 = "?s1\<lparr>sent := sent ?s1 @ [Post_phone_login (JStr (ascii ''SN-B'')) (ic_cookie ?s1)]\<rparr>"
  have srv: "server ?e h = example_portal" for h by (simp add: example_env_def)
  note seats = example_envs_seats(1)
  have h1: "http ?e (Post_phone_login (JStr (ascii ''SN-A'')) (ic_cookie s)) s =
      (Inr (pointer_to ''102-001''), ?s1)"
    by (intro http_reply) (simp add: srv)
  have 1: "sign_rec 1000 ?e (JStr (ascii ''101-011'')) s = sign_rec 999 ?e (JStr (ascii ''102-001'')) ?s1"
    using sign_rec_redirect[OF example_seat_A[OF seats] h1 label_102, of 999] by simp
  have 2: "sign_rec 999 ?e (JStr (ascii ''102-001'')) ?s1 = sign_reserved ?e reserved_data ?s2"
    using sign_rec_data_example[OF example_seat_B[OF seats], of ?s1 998]
    by (simp add: srv ascii_def)
  have 3: "sign_reserved ?e reserved_data ?s2 =
      (Inr SUCCESS, ?s2\<lparr>sent := sent ?s2 @ [Post_phone_sign (JInt 7) (ic_cookie ?s2)]\<rparr>)"
    by (intro sign_reserved_example) (simp add: srv)
  have "sign ?e (JStr (ascii ''101-011'')) s = sign_rec 1000 ?e (JStr (ascii ''101-011'')) s"
    by (simp add: sign_def example_env_def)
  also have "\<dots> = sign_reserved ?e reserved_data ?s2"
    using 1 2 by (rule trans)
  also note 3
  finally show ?thesis using assms by simp
qed

lemma detour_sign:
  assumes "ic_cookie s = c"
  shows "sign env_two_detours (JStr (ascii ''101-011'')) s =
     (Inr SUCCESS, s\<lparr>sent := sent s @
        [Post_phone_login (JStr (ascii ''SN-A'')) c,
         Post_phone_login (JStr (ascii ''SN-B'')) c,
         Post_phone_login (JStr (ascii ''SN-C'')) c,
         Post_phone_sign (JInt 7) c]\<rparr>)"
proof -
  let ?e = env_two_detours
  let ?s1 = "s\<lparr>sent := sent s @ [Post_phone_login (JStr (ascii ''SN-A'')) (ic_cookie s)]\<rparr>"
  let ?s2 = "?s1\<lparr>sent := sent ?s1 @ [Post_phone_login (JStr (ascii ''SN-B'')) (ic_cookie ?s1)]\<rparr>"
  let ?s3 = "?s2\<lparr>sent := sent ?s2 @ [Post_phone_login (JStr (ascii ''SN-C'')) (ic_cookie ?s2)]\<rparr>"
  have srv: "server ?e h = detour_portal" for h by (simp add: env_two_detours_def)
  note seats = example_envs_seats(2)
  have h1: "http ?e (Post_phone_login (JStr (ascii ''SN-A'')) (ic_cookie s)) s =
      (Inr (pointer_to ''102-001''), ?s1)"
    by (intro http_reply) (simp add: srv detour_portal_def ascii_def)
  have 1: "sign_rec 1000 ?e (JStr (ascii ''101-011'')) s = sign_rec 999 ?e (JStr (ascii ''102-001'')) ?s1"
    using sign_rec_redirect[OF example_seat_A[OF seats] h1 label_102, of 999] by simp
  have h2: "http ?e (Post_phone_login (JStr (ascii ''SN-B'')) (ic_cookie ?s1)) ?s1 =
      (Inr (pointer_to ''103-001''), ?s2)"
    by (intro http_reply) (simp add: srv detour_portal_def)
  have 2: "sign_rec 999 ?e (JStr (ascii ''102-001'')) ?s1 = sign_rec 998 ?e (JStr (ascii ''103-001'')) ?s2"
    using sign_rec_redirect[OF example_seat_B[OF seats] h2 label_103, of 998] by simp
  have 3: "sign_rec 998 ?e (JStr (ascii ''103-001'')) ?s2 = sign_reserved ?e reserved_data ?s3"
    using sign_rec_data_example[OF example_seat_C[OF seats], of ?s2 997]
    by (simp add: srv detour_portal_def ascii_def)
  have 4: "sign_reserved ?e reserved_data ?s3 =
      (Inr SUCCESS, ?s3\<lparr>sent := sent ?s3 @ [Post_phone_sign (JInt 7) (ic_cookie ?s3)]\<rparr>)"
    by (intro sign_reserved_example) (simp add: srv detour_portal_def)
  have "sign ?e (JStr (ascii ''101-011'')) s = sign_rec 1000 ?e (JStr (ascii ''101-011'')) s"
    by (simp add: sign_def env_two_detours_def example_env_def)
  also have "\<dots> = sign_rec 998 ?e (JStr (ascii ''103-001'')) ?s2"
    using 1 2 by (rule trans)
  also have "\<dots> = sign_reserved ?e reserved_data ?s3" by (rule 3)
  also note 4
  finally show ?thesis using assms by simp
qed

lemma example_forced_login:
  "fst (login example_env True s) = Inr SUCCESS \<and>
   ic_cookie (snd (login example_env True s)) = example_token \<and>
   name (snd (login example_env True s)) = name s"
  by (simp add: login_def get_login_url_def http_def example_env_def
      json_reply_def header_reply_def negotiate_def fetch_login_form_def first_of_def ascii_def
      submit_credentials_def exchange_ticket_def derive_cookie_def str_of_header_def
      starts_with_def Let_def passwordReset_def example_token_def)

lemma example_query_stale:
  "ic_cookie s \<noteq> example_token \<Longrightarrow>
   sign_for_ahead_reservation example_env s =
     (Inr COOKIE_EXPIRED, s\<lparr>sent := sent s @ [Get_resvinfo (ascii ''2025-02-17'') (ic_cookie s)]\<rparr>)"
  by (simp add: sign_for_ahead_reservation_def get_ahead_reservation_def http_def example_env_def
      json_reply_def inspect_resv_def json_eq_int_def)

lemma example_query_fresh:
  assumes "ic_cookie s = example_token"
  shows "fst (sign_for_ahead_reservation example_env s) = Inr SUCCESS"
proof -
  let ?s1 = "s\<lparr>sent := sent s @ [Get_resvinfo (ascii ''2025-02-17'') example_token]\<rparr>"
  have g: "get_ahead_reservation example_env s = (Inr (Some example_resv, SUCCESS), ?s1)"
    using assms
    by (simp add: get_ahead_reservation_def http_def example_env_def json_reply_def
        inspect_resv_def json_eq_int_def example_resv_def ascii_def)
  have d: "dict_get example_resv (ascii ''resvDevInfoList'') =
      Inr (JList [JObj [(ascii ''devName'', JStr (ascii ''101-011''))]])"
    by (simp add: example_resv_def ascii_def)
  have c: "ic_cookie ?s1 = example_token" using assms by simp
  show ?thesis
    using g d example_sign[OF c] by (simp add: sign_for_ahead_reservation_def)
qed

lemma example_attempts:
  "fst (attempts 2 (login example_env) (sign_for_ahead_reservation example_env)
          (notify_login_failed example_env example_student) SUCCESS
          (ZWYT (ascii ''zhu'') (ascii ''2001'') (ascii ''pw'') [] (ascii ''stale''))
          \<lparr>external_cookies = [], cookie_dirty = False\<rparr>) = Inr SUCCESS \<and>
   snd (snd (attempts 2 (login example_env) (sign_for_ahead_reservation example_env)
          (notify_login_failed example_env example_student) SUCCESS
          (ZWYT (ascii ''zhu'') (ascii ''2001'') (ascii ''pw'') [] (ascii ''stale''))
          \<lparr>external_cookies = [], cookie_dirty = False\<rparr>)) =
     (\<lparr>external_cookies = [(ascii ''zhu'', example_token)], cookie_dirty = True\<rparr>,
      [Login_call False (Inr LOGIN_SKIPED), Sign_call (Inr COOKIE_EXPIRED),
       Login_call True (Inr SUCCESS), Sign_call (Inr SUCCESS)])"
proof -
  let ?e = example_env
  let ?s0 = "ZWYT (ascii ''zhu'') (ascii ''2001'') (ascii ''pw'') [] (ascii ''stale'')"
  let ?ms = "\<lparr>external_cookies = [], cookie_dirty = False\<rparr>"
  let ?s1 = "?s0\<lparr>sent := [Get_resvinfo (ascii ''2025-02-17'') (ascii ''stale'')]\<rparr>"
  have stale: "ascii ''stale'' \<noteq> example_token" "ascii ''stale'' \<noteq> []"
    by (simp_all add: example_token_def ascii_def)
  have l1: "login ?e False ?s0 = (Inr LOGIN_SKIPED, ?s0)"
    using stale by (simp add: login_def ZWYT_def)
  have q1: "sign_for_ahead_reservation ?e ?s0 = (Inr COOKIE_EXPIRED, ?s1)"
    using example_query_stale[of ?s0] stale by (simp add: ZWYT_def)
  obtain s2 where l2: "login ?e True ?s1 = (Inr SUCCESS, s2)" and c2: "ic_cookie s2 = example_token"
    and n2: "name s2 = ascii ''zhu''"
    using example_forced_login[of ?s1] by (cases "login ?e True ?s1") (simp add: ZWYT_def)
  obtain s3 where q2: "sign_for_ahead_reservation ?e s2 = (Inr SUCCESS, s3)"
    using example_query_fresh[OF c2] by (cases "sign_for_ahead_reservation ?e s2") simp
  have a1: "attempt (login ?e) (sign_for_ahead_reservation ?e) (notify_login_failed ?e example_student)
      SUCCESS ?s0 ?ms =
      (Inr COOKIE_EXPIRED, ?s1, ?ms, [Login_call False (Inr LOGIN_SKIPED), Sign_call (Inr COOKIE_EXPIRED)])"
    by (simp add: attempt_def try_sign_def l1 q1)
  have a2: "attempt (login ?e) (sign_for_ahead_reservation ?e) (notify_login_failed ?e example_student)
      COOKIE_EXPIRED ?s1 ?ms =
      (Inl (Inr SUCCESS), s3, \<lparr>external_cookies = [(ascii ''zhu'', example_token)], cookie_dirty = True\<rparr>,
       [Login_call True (Inr SUCCESS), Sign_call (Inr SUCCESS)])"
    by (simp add: attempt_def try_sign_def l2 q2 c2 n2)
  have "attempts 2 (login ?e) (sign_for_ahead_reservation ?e) (notify_login_failed ?e example_student)
      SUCCESS ?s0 ?ms =
      (Inr SUCCESS, s3, \<lparr>external_cookies = [(ascii ''zhu'', example_token)], cookie_dirty = True\<rparr>,
       [Login_call False (Inr LOGIN_SKIPED), Sign_call (Inr COOKIE_EXPIRED),
        Login_call True (Inr SUCCESS), Sign_call (Inr SUCCESS)])"
    by (simp add: numeral_2_eq_2 a1 a2)
  then show ?thesis by simp
qed

text \<open>
  One identity with a stale cookie against the example portal: the login is skipped, the
  reservation query reports the expiry, the forced login fetches the token, the sign-in
  succeeds after one detour, and the token is put into the cache.
\<close>

lemma example_identity_run:
  "process_identity example_env example_student \<lparr>external_cookies = [], cookie_dirty = False\<rparr> =
     (Inr (),
      \<lparr>external_cookies = [(ascii ''zhu'', example_token)], cookie_dirty = True\<rparr>,
      [Login_call False (Inr LOGIN_SKIPED), Sign_call (Inr COOKIE_EXPIRED),
       Login_call True (Inr SUCCESS), Sign_call (Inr SUCCESS)])"
proof -
  let ?run = "attempts 2 (login example_env) (sign_for_ahead_reservation example_env)
          (notify_login_failed example_env example_student) SUCCESS
          (ZWYT (ascii ''zhu'') (ascii ''2001'') (ascii ''pw'') [] (ascii ''stale''))
          \<lparr>external_cookies = [], cookie_dirty = False\<rparr>"
  obtain yy where run: "?run =
      (Inr SUCCESS, yy, \<lparr>external_cookies = [(ascii ''zhu'', example_token)], cookie_dirty = True\<rparr>,
       [Login_call False (Inr LOGIN_SKIPED), Sign_call (Inr COOKIE_EXPIRED),
        Login_call True (Inr SUCCESS), Sign_call (Inr SUCCESS)])"
    using example_attempts by (cases ?run) simp
  have stu: "stu_cookie example_student = Some (ascii ''stale'')"
    "stu_name example_student = ascii ''zhu''" "stu_sno example_student = ascii ''2001''"
    "stu_pwd example_student = ascii ''pw''" "stu_pushplus example_student = []"
    by (simp_all add: example_student_def)
  show ?thesis
    by (simp add: process_identity_def stu run)
qed

section \<open>Properties of the reservation inspector\<close>

lemma scan_resv_filter:
  "\<forall>item \<in> set items. resv_status item \<noteq> None \<Longrightarrow>
   scan_resv items resv = Inr (resv @ filter record_needs_sign_in items)"
proof (induction items arbitrary: resv)
  case Nil
  then show ?case by simp
next
  case (Cons item items)
  obtain m where m: "resv_status item = Some m" using Cons.prems by auto
  then obtain status where st: "dict_get item (ascii ''resvStatus'') = Inr status"
    and i: "int_of_json status = Some m"
    by (auto simp: resv_status_def split: sum.splits)
  have IH: "scan_resv items r = Inr (r @ filter record_needs_sign_in items)" for r
    using Cons.prems by (intro Cons.IH) simp
  have "record_needs_sign_in item \<longleftrightarrow> (m AND 64) = 0 \<or> (m AND 2048) \<noteq> 0"
    using m by (simp add: record_needs_sign_in_def needsSignIn_def CHECKED_IN_def TEMP_AWAY_def)
  then show ?case
    using st i IH by simp
qed

lemma needsSignIn_examples:
  "needsSignIn 1" "\<not> needsSignIn 64" "needsSignIn (64 OR 2048)" "needsSignIn 6"
  by (simp_all add: needsSignIn_def CHECKED_IN_def TEMP_AWAY_def)

lemma example_status: "resv_status (JObj [(ascii ''resvStatus'', JInt m)]) = Some m"
  by (simp add: resv_status_def)

text \<open>
  Claim C1. The predicate of the specification is the condition of line 429: for every
  integer \<open>m\<close> it holds exactly when \<open>(m & 64) == 0 or (m & 2048) != 0\<close>, with the four
  values of the examples, and the loop of \<open>get_ahead_reservation\<close> keeps exactly the
  records whose status satisfies it, in response order.
\<close>

theorem needs_sign_in_predicate:
  "(needsSignIn m \<longleftrightarrow> (m AND 64) = 0 \<or> (m AND 2048) \<noteq> 0) \<and>
   needsSignIn 1 \<and> \<not> needsSignIn 64 \<and> needsSignIn (64 OR 2048) \<and> needsSignIn 6 \<and>
   ((\<forall>item \<in> set items. resv_status item \<noteq> None) \<longrightarrow>
      scan_resv items [] = Inr (filter record_needs_sign_in items))"
  using scan_resv_filter[of items "[]"] needsSignIn_examples
  by (simp add: needsSignIn_def CHECKED_IN_def TEMP_AWAY_def)

theorem needs_sign_in_predicate_witness:
  "scan_resv [JObj [(ascii ''resvStatus'', JInt 2)], JObj [(ascii ''resvStatus'', JInt 64)],
              JObj [(ascii ''resvStatus'', JInt 2112)]] [] =
     Inr [JObj [(ascii ''resvStatus'', JInt 2)], JObj [(ascii ''resvStatus'', JInt 2112)]]"
  using needs_sign_in_predicate[of 2112
      "[JObj [(ascii ''resvStatus'', JInt 2)], JObj [(ascii ''resvStatus'', JInt 64)],
        JObj [(ascii ''resvStatus'', JInt 2112)]]"]
  by (simp add: example_status record_needs_sign_in_def needsSignIn_def CHECKED_IN_def TEMP_AWAY_def)

lemma inspect_resv_300:
  "dict_get res (ascii ''code'') = Inr code \<Longrightarrow> json_eq_int code 300 \<Longrightarrow>
   inspect_resv res = Inr (None, COOKIE_EXPIRED)"
  by (simp add: inspect_resv_def json_eq_int_def)

lemma inspect_resv_other:
  "dict_get res (ascii ''code'') = Inr code \<Longrightarrow> \<not> json_eq_int code 0 \<Longrightarrow> \<not> json_eq_int code 300 \<Longrightarrow>
   inspect_resv res = Inr (None, FAILED)"
  by (simp add: inspect_resv_def)

lemma inspect_resv_0:
  assumes "dict_get res (ascii ''code'') = Inr code" "json_eq_int code 0"
    and "dict_get res (ascii ''data'') = Inr (JList items)"
    and "\<forall>item \<in> set items. resv_status item \<noteq> None"
    and "dict_get res (ascii ''count'') = Inr count" "int_of_json count \<noteq> None"
  shows "inspect_resv res =
     Inr (case filter record_needs_sign_in items of
            [] \<Rightarrow> (None, NO_RESERVATION)
          | r # rest \<Rightarrow> (Some r, SUCCESS))"
  using assms scan_resv_filter[OF assms(4), of "[]"]
  by (auto simp: inspect_resv_def split: list.splits)

lemma get_ahead_reservation_inspect:
  "http e (Get_resvinfo (today e) (ic_cookie s)) s = (Inr r, s1) \<Longrightarrow> json_of r = Some res \<Longrightarrow>
   get_ahead_reservation e s = (inspect_resv res, s1)"
  by (simp add: get_ahead_reservation_def)

text \<open>
  Claim C4, as the code has it. For a decoded reservation-list response: with a code
  equal to 0, a list of records that all carry a numeric status, and a numeric count,
  the inspector returns the first record that needs sign-in with \<open>SUCCESS\<close>, or no record
  with \<open>NO_RESERVATION\<close> when none does; with code 300 it returns no record with
  \<open>COOKIE_EXPIRED\<close>; with any other code, no record with \<open>FAILED\<close>.
\<close>

theorem reservation_code_mapping:
  assumes "http e (Get_resvinfo (today e) (ic_cookie s)) s = (Inr r, s1)"
    and "json_of r = Some res" and "dict_get res (ascii ''code'') = Inr code"
  shows
    "(json_eq_int code 0 \<and> dict_get res (ascii ''data'') = Inr (JList items) \<and>
      (\<forall>item \<in> set items. resv_status item \<noteq> None) \<and>
      dict_get res (ascii ''count'') = Inr count \<and> int_of_json count \<noteq> None \<longrightarrow>
        get_ahead_reservation e s =
          (Inr (case filter record_needs_sign_in items of
                  [] \<Rightarrow> (None, NO_RESERVATION)
                | first # rest \<Rightarrow> (Some first, SUCCESS)), s1)) \<and>
     (json_eq_int code 300 \<longrightarrow> get_ahead_reservation e s = (Inr (None, COOKIE_EXPIRED), s1)) \<and>
     (\<not> json_eq_int code 0 \<and> \<not> json_eq_int code 300 \<longrightarrow>
        get_ahead_reservation e s = (Inr (None, FAILED), s1))"
  using get_ahead_reservation_inspect[OF assms(1,2)] inspect_resv_300[OF assms(3)]
    inspect_resv_other[OF assms(3)] inspect_resv_0[OF assms(3), of items count]
  by simp

theorem reservation_code_mapping_witness:
  "get_ahead_reservation example_env (example_zwyt example_token) =
     (Inr (Some example_resv, SUCCESS),
      (example_zwyt example_token)\<lparr>sent := [Get_resvinfo (ascii ''2025-02-17'') example_token]\<rparr>) \<and>
   fst (get_ahead_reservation example_env (example_zwyt (ascii ''stale''))) =
     Inr (None, COOKIE_EXPIRED)"
proof -
  let ?e = example_env
  let ?s = "example_zwyt example_token" and ?t = "example_zwyt (ascii ''stale'')"
  let ?j = "JObj [(ascii ''code'', JInt 0), (ascii ''count'', JInt 1),
                  (ascii ''data'', JList [example_resv])]"
  let ?k = "JObj [(ascii ''code'', JInt 300)]"
  let ?s1 = "?s\<lparr>sent := [Get_resvinfo (ascii ''2025-02-17'') example_token]\<rparr>"
  let ?t1 = "?t\<lparr>sent := [Get_resvinfo (ascii ''2025-02-17'') (ascii ''stale'')]\<rparr>"
  have a: "http ?e (Get_resvinfo (today ?e) (ic_cookie ?s)) ?s =
      (Inr \<lparr>body = [], header = (\<lambda>k. None), json_of = Some ?j\<rparr>, ?s1)"
    by (simp add: http_def example_env_def json_reply_def example_zwyt_def ZWYT_def)
  have b: "json_of \<lparr>body = [], header = (\<lambda>k. None), json_of = Some ?j\<rparr> = Some ?j" by simp
  have c: "dict_get ?j (ascii ''code'') = Inr (JInt 0)" by simp
  have d: "dict_get ?j (ascii ''data'') = Inr (JList [example_resv])"
    and n: "dict_get ?j (ascii ''count'') = Inr (JInt 1)"
    by (simp_all add: ascii_def)
  have st: "resv_status example_resv = Some 4"
    by (simp add: resv_status_def example_resv_def)
  have need: "record_needs_sign_in example_resv"
    by (simp add: record_needs_sign_in_def st needsSignIn_def CHECKED_IN_def TEMP_AWAY_def)
  have stale: "ascii ''stale'' \<noteq> example_token" by (simp add: example_token_def ascii_def)
  have a': "http ?e (Get_resvinfo (today ?e) (ic_cookie ?t)) ?t =
      (Inr \<lparr>body = [], header = (\<lambda>k. None), json_of = Some ?k\<rparr>, ?t1)"
    using stale by (simp add: http_def example_env_def json_reply_def example_zwyt_def ZWYT_def)
  have b': "json_of \<lparr>body = [], header = (\<lambda>k. None), json_of = Some ?k\<rparr> = Some ?k" by simp
  have c': "dict_get ?k (ascii ''code'') = Inr (JInt 300)" by simp
  show ?thesis
    using reservation_code_mapping[OF a b c, of "[example_resv]" "JInt 1"]
      reservation_code_mapping[OF a' b' c', of "[]" JNull] d n st need
    by (simp add: json_eq_int_def)
qed

text \<open>
  Claim C4 as stated fails on a response with code 0 that carries no count: the log
  line 440 subtracts from \<open>None\<close> and raises TypeError where the claim returns
  \<open>NO_RESERVATION\<close>.
\<close>

theorem reservation_without_count:
  "fst (get_ahead_reservation env_without_count (example_zwyt example_token)) = Inl TypeError"
  by (simp add: get_ahead_reservation_def http_def env_without_count_def example_env_def
      json_reply_def inspect_resv_def json_eq_int_def ascii_def)

section \<open>Properties of the login\<close>

lemma http_frame: "http e r s = (x, s1) \<Longrightarrow>
    ic_cookie s1 = ic_cookie s \<and> login_url s1 = login_url s \<and> sent s1 = sent s @ [r]"
  by (auto simp: http_def split: reply.splits)

lemma get_login_url_cookie: "get_login_url e s = (x, s1) \<Longrightarrow> ic_cookie s1 = ic_cookie s"
  by (auto simp: get_login_url_def split: prod.splits sum.splits option.splits dest!: http_frame)

lemma fetch_login_form_cookie:
  "fetch_login_form e url s = (x, s1) \<Longrightarrow> ic_cookie s1 = ic_cookie s"
  by (auto simp: fetch_login_form_def split: prod.splits sum.splits dest!: http_frame)

lemma submit_credentials_cookie:
  "submit_credentials e url lt ex s = (x, s1) \<Longrightarrow> ic_cookie s1 = ic_cookie s"
  by (auto simp: submit_credentials_def passwordReset_def Let_def
      split: prod.splits sum.splits if_splits dest!: http_frame)

lemma exchange_ticket_cookie:
  "exchange_ticket e url ticket s = (x, s1) \<Longrightarrow> ic_cookie s1 = ic_cookie s"
  by (auto simp: exchange_ticket_def Let_def split: prod.splits sum.splits option.splits dest!: http_frame)

lemma derive_cookie_fault:
  "derive_cookie e ut uu s = (Inl err, s1) \<Longrightarrow> ic_cookie s1 = ic_cookie s"
  by (auto simp: derive_cookie_def split: prod.splits sum.splits option.splits dest!: http_frame)

lemma negotiate_result:
  "negotiate e s = (x, s1) \<Longrightarrow>
     x = Inr SUCCESS \<or> ((\<exists>err. x = Inl err) \<and> ic_cookie s1 = ic_cookie s)"
  unfolding negotiate_def
  by (auto split: prod.splits sum.splits option.splits
      dest!: fetch_login_form_cookie submit_credentials_cookie exchange_ticket_cookie derive_cookie_fault)

lemma login_result:
  "login e f s = (x, s1) \<Longrightarrow>
     x = Inr SUCCESS \<or>
     ((x = Inr LOGIN_SKIPED \<or> x = Inr GET_LOGIN_URL_FAILED \<or> (\<exists>err. x = Inl err)) \<and>
      ic_cookie s1 = ic_cookie s)"
  unfolding login_def
  by (auto split: prod.splits sum.splits if_splits dest!: get_login_url_cookie negotiate_result)

lemma findall_rest_0_absent:
  "\<not> contains p s \<Longrightarrow> findall_rest_0 p s = Inl IndexError"
  by (induction s) auto

lemma ticket_in_None: "findall_rest_0 (ascii ''ticket='') (ascii ''None'') = Inl IndexError"
  by (simp add: ascii_def starts_with_def)

lemma login_propagates:
  assumes "force_login \<or> ic_cookie s = []" and "get_login_url e s = (Inr (), s0)"
  shows "(login_url s0 = None \<longrightarrow> login e force_login s = (Inl TypeError, s0)) \<and>
    (login_url s0 = Some url \<longrightarrow>
       (fetch_login_form e url s0 = (Inl err, s1) \<longrightarrow> login e force_login s = (Inl err, s1)) \<and>
       (fetch_login_form e url s0 = (Inr (lt, ex), s1) \<and>
        submit_credentials e url lt ex s1 = (Inl err, s2) \<longrightarrow>
          login e force_login s = (Inl err, s2)) \<and>
       (fetch_login_form e url s0 = (Inr (lt, ex), s1) \<and>
        submit_credentials e url lt ex s1 = (Inr ticket, s2) \<and>
        exchange_ticket e url ticket s2 = (Inl err, s3) \<longrightarrow>
          login e force_login s = (Inl err, s3)) \<and>
       (fetch_login_form e url s0 = (Inr (lt, ex), s1) \<and>
        submit_credentials e url lt ex s1 = (Inr ticket, s2) \<and>
        exchange_ticket e url ticket s2 = (Inr (ut, uu), s3) \<and>
        derive_cookie e ut uu s3 = (Inl err, s4) \<longrightarrow>
          login e force_login s = (Inl err, s4)))"
  using assms by (auto simp: login_def negotiate_def)

lemma missing_form_value:
  assumes "http e (Get_login_url url) t = (Inr res, t1)"
    and "html_xpath e (body res) Rule_lt = Inr [] \<or>
         (\<exists>lt lts. html_xpath e (body res) Rule_lt = Inr (lt # lts)) \<and>
         html_xpath e (body res) Rule_execution = Inr []"
  shows "fetch_login_form e url t = (Inl IndexError, t1)"
  using assms by (auto simp: fetch_login_form_def first_of_def)

lemma missing_ticket:
  assumes "strEnc e (username t @ password t @ lt) = Inr rsa"
    and "http e (Post_login_url url rsa (length (username t)) (length (password t)) lt ex) t =
           (Inr res, t1)"
    and "header res (ascii ''Location'') = None \<or>
         findall_rest_0 (ascii ''ticket='') (str_of_header (header res (ascii ''Location''))) =
           Inl IndexError"
  shows "fst (submit_credentials e url lt ex t) = Inl IndexError"
  using assms ticket_in_None by (auto simp: submit_credentials_def Let_def str_of_header_def)

lemma missing_service:
  "findall_rest_0 (ascii ''service='') url = Inl IndexError \<Longrightarrow>
   exchange_ticket e url ticket t = (Inl IndexError, t)"
  by (simp add: exchange_ticket_def)

lemma missing_location:
  "findall_rest_0 (ascii ''service='') url = Inr service \<Longrightarrow>
   http e (Get_service (unquote e (service @ ascii ''?ticket='' @ ticket))) t = (Inr res, t1) \<Longrightarrow>
   header res (ascii ''Location'') = None \<Longrightarrow>
   exchange_ticket e url ticket t = (Inl TypeError, t1)"
  by (simp add: exchange_ticket_def)

lemma missing_session_parameter:
  assumes "findall_rest_0 (ascii ''service='') url = Inr service"
    and "http e (Get_service (unquote e (service @ ascii ''?ticket='' @ ticket))) t = (Inr res, t1)"
    and "header res (ascii ''Location'') = Some loc"
    and "findall_rest_0 (ascii ''uniToken='') (unquote e loc) = Inl IndexError \<or>
         (\<exists>ut. findall_rest_0 (ascii ''uniToken='') (unquote e loc) = Inr ut) \<and>
         findall_lazy_0 (ascii ''uuid='') 38 (unquote e loc) = Inl IndexError"
  shows "exchange_ticket e url ticket t = (Inl IndexError, t1)"
  using assms by (auto simp: exchange_ticket_def)

lemma missing_set_cookie:
  "http e (Get_auth_token uu ut) t = (Inr res, t1) \<Longrightarrow>
   header res (ascii ''Set-Cookie'') = None \<Longrightarrow>
   derive_cookie e ut uu t = (Inl TypeError, t1)"
  by (simp add: derive_cookie_def)

lemma missing_ic_cookie:
  "http e (Get_auth_token uu ut) t = (Inr res, t1) \<Longrightarrow>
   header res (ascii ''Set-Cookie'') = Some icc \<Longrightarrow>
   findall_lazy_0 (ascii ''ic-cookie='') 59 icc = Inl IndexError \<Longrightarrow>
   derive_cookie e ut uu t = (Inl IndexError, t1)"
  by (simp add: derive_cookie_def)

lemma example_login:
  "fst (login example_env f (example_zwyt [])) = Inr SUCCESS \<and>
   ic_cookie (snd (login example_env f (example_zwyt []))) = example_token"
  by (simp add: login_def get_login_url_def http_def example_env_def example_zwyt_def ZWYT_def
      json_reply_def header_reply_def negotiate_def fetch_login_form_def first_of_def ascii_def
      submit_credentials_def exchange_ticket_def derive_cookie_def str_of_header_def
      starts_with_def Let_def passwordReset_def example_token_def)

lemma example_login_without_lt:
  "fst (login env_without_lt f (example_zwyt [])) = Inl IndexError"
  by (simp add: login_def get_login_url_def http_def env_without_lt_def example_env_def
      example_zwyt_def ZWYT_def json_reply_def header_reply_def negotiate_def
      fetch_login_form_def first_of_def ascii_def)

text \<open>
  Claim C5, as the code has it. \<open>login\<close> returns \<open>FAILED\<close> in no run. Past the fast
  path and a resolved login URL, an exception of a step of lines 290 to 337 is the
  result of \<open>login\<close>; and each step raises when its value is missing: IndexError for a
  form value, a ticket, a service URL, a \<open>uniToken\<close>, a \<open>uuid\<close> or an \<open>ic-cookie\<close> that the
  search does not find, TypeError for a login URL, a \<open>Location\<close> header (of the ticket
  exchange) or a \<open>Set-Cookie\<close> header that is absent.
\<close>

theorem login_missing_value_raises:
  "fst (login e force_login s) \<noteq> Inr FAILED \<and>
   ((force_login \<or> ic_cookie s = []) \<and> get_login_url e s = (Inr (), s0) \<longrightarrow>
      (login_url s0 = None \<longrightarrow> login e force_login s = (Inl TypeError, s0)) \<and>
      (login_url s0 = Some url \<longrightarrow>
         (fetch_login_form e url s0 = (Inl err, s1) \<longrightarrow> login e force_login s = (Inl err, s1)) \<and>
         (fetch_login_form e url s0 = (Inr (lt, ex), s1) \<and>
          submit_credentials e url lt ex s1 = (Inl err, s2) \<longrightarrow>
            login e force_login s = (Inl err, s2)) \<and>
         (fetch_login_form e url s0 = (Inr (lt, ex), s1) \<and>
          submit_credentials e url lt ex s1 = (Inr ticket, s2) \<and>
          exchange_ticket e url ticket s2 = (Inl err, s3) \<longrightarrow>
            login e force_login s = (Inl err, s3)) \<and>
         (fetch_login_form e url s0 = (Inr (lt, ex), s1) \<and>
          submit_credentials e url lt ex s1 = (Inr ticket, s2) \<and>
          exchange_ticket e url ticket s2 = (Inr (ut, uu), s3) \<and>
          derive_cookie e ut uu s3 = (Inl err, s4) \<longrightarrow>
            login e force_login s = (Inl err, s4)))) \<and>
   (http e (Get_login_url url) t = (Inr res, t1) \<and>
    (html_xpath e (body res) Rule_lt = Inr [] \<or>
     (\<exists>v vs. html_xpath e (body res) Rule_lt = Inr (v # vs)) \<and>
     html_xpath e (body res) Rule_execution = Inr []) \<longrightarrow>
      fetch_login_form e url t = (Inl IndexError, t1)) \<and>
   (strEnc e (username t @ password t @ lt) = Inr rsa \<and>
    http e (Post_login_url url rsa (length (username t)) (length (password t)) lt ex) t =
      (Inr res, t1) \<and>
    (header res (ascii ''Location'') = None \<or>
     findall_rest_0 (ascii ''ticket='') (str_of_header (header res (ascii ''Location''))) =
       Inl IndexError) \<longrightarrow>
      fst (submit_credentials e url lt ex t) = Inl IndexError) \<and>
   (findall_rest_0 (ascii ''service='') url = Inl IndexError \<longrightarrow>
      exchange_ticket e url ticket t = (Inl IndexError, t)) \<and>
   (findall_rest_0 (ascii ''service='') url = Inr service \<and>
    http e (Get_service (unquote e (service @ ascii ''?ticket='' @ ticket))) t = (Inr res, t1) \<longrightarrow>
      (header res (ascii ''Location'') = None \<longrightarrow>
         exchange_ticket e url ticket t = (Inl TypeError, t1)) \<and>
      (header res (ascii ''Location'') = Some loc \<and>
       (findall_rest_0 (ascii ''uniToken='') (unquote e loc) = Inl IndexError \<or>
        (\<exists>v. findall_rest_0 (ascii ''uniToken='') (unquote e loc) = Inr v) \<and>
        findall_lazy_0 (ascii ''uuid='') 38 (unquote e loc) = Inl IndexError) \<longrightarrow>
         exchange_ticket e url ticket t = (Inl IndexError, t1))) \<and>
   (http e (Get_auth_token uu ut) t = (Inr res, t1) \<longrightarrow>
      (header res (ascii ''Set-Cookie'') = None \<longrightarrow>
         derive_cookie e ut uu t = (Inl TypeError, t1)) \<and>
      (header res (ascii ''Set-Cookie'') = Some icc \<and>
       findall_lazy_0 (ascii ''ic-cookie='') 59 icc = Inl IndexError \<longrightarrow>
         derive_cookie e ut uu t = (Inl IndexError, t1)))"
proof -
  have a: "fst (login e force_login s) \<noteq> Inr FAILED"
    using login_result[of e force_login s "fst (login e force_login s)" "snd (login e force_login s)"]
    by auto
  have b: "(force_login \<or> ic_cookie s = []) \<and> get_login_url e s = (Inr (), s0) \<longrightarrow>
      (login_url s0 = None \<longrightarrow> login e force_login s = (Inl TypeError, s0)) \<and>
      (login_url s0 = Some url \<longrightarrow>
         (fetch_login_form e url s0 = (Inl err, s1) \<longrightarrow> login e force_login s = (Inl err, s1)) \<and>
         (fetch_login_form e url s0 = (Inr (lt, ex), s1) \<and>
          submit_credentials e url lt ex s1 = (Inl err, s2) \<longrightarrow>
            login e force_login s = (Inl err, s2)) \<and>
         (fetch_login_form e url s0 = (Inr (lt, ex), s1) \<and>
          submit_credentials e url lt ex s1 = (Inr ticket, s2) \<and>
          exchange_ticket e url ticket s2 = (Inl err, s3) \<longrightarrow>
            login e force_login s = (Inl err, s3)) \<and>
         (fetch_login_form e url s0 = (Inr (lt, ex), s1) \<and>
          submit_credentials e url lt ex s1 = (Inr ticket, s2) \<and>
          exchange_ticket e url ticket s2 = (Inr (ut, uu), s3) \<and>
          derive_cookie e ut uu s3 = (Inl err, s4) \<longrightarrow>
            login e force_login s = (Inl err, s4)))"
    using login_propagates[of force_login s e s0 url err s1 lt ex s2 ticket s3 ut uu s4] by blast
  have c: "http e (Get_login_url url) t = (Inr res, t1) \<and>
    (html_xpath e (body res) Rule_lt = Inr [] \<or>
     (\<exists>v vs. html_xpath e (body res) Rule_lt = Inr (v # vs)) \<and>
     html_xpath e (body res) Rule_execution = Inr []) \<longrightarrow>
      fetch_login_form e url t = (Inl IndexError, t1)"
    using missing_form_value[of e url t res t1] by blast
  have d: "strEnc e (username t @ password t @ lt) = Inr rsa \<and>
    http e (Post_login_url url rsa (length (username t)) (length (password t)) lt ex) t =
      (Inr res, t1) \<and>
    (header res (ascii ''Location'') = None \<or>
     findall_rest_0 (ascii ''ticket='') (str_of_header (header res (ascii ''Location''))) =
       Inl IndexError) \<longrightarrow>
      fst (submit_credentials e url lt ex t) = Inl IndexError"
    using missing_ticket[of e t lt rsa url ex res t1] by blast
  have f: "findall_rest_0 (ascii ''service='') url = Inl IndexError \<longrightarrow>
      exchange_ticket e url ticket t = (Inl IndexError, t)"
    using missing_service[of url e ticket t] by blast
  have g: "findall_rest_0 (ascii ''service='') url = Inr service \<and>
    http e (Get_service (unquote e (service @ ascii ''?ticket='' @ ticket))) t = (Inr res, t1) \<longrightarrow>
      (header res (ascii ''Location'') = None \<longrightarrow>
         exchange_ticket e url ticket t = (Inl TypeError, t1)) \<and>
      (header res (ascii ''Location'') = Some loc \<and>
       (findall_rest_0 (ascii ''uniToken='') (unquote e loc) = Inl IndexError \<or>
        (\<exists>v. findall_rest_0 (ascii ''uniToken='') (unquote e loc) = Inr v) \<and>
        findall_lazy_0 (ascii ''uuid='') 38 (unquote e loc) = Inl IndexError) \<longrightarrow>
         exchange_ticket e url ticket t = (Inl IndexError, t1))"
    using missing_location[of url service e ticket t res t1]
      missing_session_parameter[of url service e ticket t res t1 loc] by blast
  have h: "http e (Get_auth_token uu ut) t = (Inr res, t1) \<longrightarrow>
      (header res (ascii ''Set-Cookie'') = None \<longrightarrow>
         derive_cookie e ut uu t = (Inl TypeError, t1)) \<and>
      (header res (ascii ''Set-Cookie'') = Some icc \<and>
       findall_lazy_0 (ascii ''ic-cookie='') 59 icc = Inl IndexError \<longrightarrow>
         derive_cookie e ut uu t = (Inl IndexError, t1))"
    using missing_set_cookie[of e uu ut t res t1] missing_ic_cookie[of e uu ut t res t1 icc]
    by blast
  show ?thesis
    using a b c d f g h by (intro conjI)
qed

theorem login_missing_value_raises_witness:
  "fst (login env_without_lt True (example_zwyt [])) \<noteq> Inr FAILED \<and>
   fetch_login_form env_without_lt (ascii ''cas?service=lib/auth'')
       ((example_zwyt [])\<lparr>sent := [Get_findaddress, Get_toLoginPage (JStr (ascii ''lib''))],
                            login_url := Some (ascii ''cas?service=lib/auth'')\<rparr>) =
     (Inl IndexError,
      (example_zwyt [])\<lparr>sent := [Get_findaddress, Get_toLoginPage (JStr (ascii ''lib'')),
                                   Get_login_url (ascii ''cas?service=lib/auth'')],
                         login_url := Some (ascii ''cas?service=lib/auth'')\<rparr>)"
proof -
  let ?e = env_without_lt and ?url = "ascii ''cas?service=lib/auth''"
  let ?t = "(example_zwyt [])\<lparr>sent := [Get_findaddress, Get_toLoginPage (JStr (ascii ''lib''))],
                            login_url := Some ?url\<rparr>"
  let ?t1 = "(example_zwyt [])\<lparr>sent := [Get_findaddress, Get_toLoginPage (JStr (ascii ''lib'')),
                                   Get_login_url ?url],
                         login_url := Some ?url\<rparr>"
  let ?res = "\<lparr>body = ascii ''<form>'', header = (\<lambda>k. None), json_of = None\<rparr>"
  have h: "http ?e (Get_login_url ?url) ?t = (Inr ?res, ?t1)"
    by (simp add: http_def env_without_lt_def example_env_def example_zwyt_def ZWYT_def)
  have x: "html_xpath ?e (body ?res) Rule_lt = Inr []"
    by (simp add: env_without_lt_def example_env_def)
  show ?thesis
    using login_missing_value_raises[of ?e True "example_zwyt []" _ ?url _ _ _ _ _ _ _ _ _ _ ?t ?res ?t1]
      h x
    by simp
qed

text \<open>
  Claim C5 as stated fails when the login page lacks the field \<open>lt\<close>: \<open>login\<close> raises
  IndexError and returns nothing, so it does not return \<open>FAILED\<close>.
\<close>

theorem login_without_lt_raises:
  "fst (login env_without_lt False (example_zwyt [])) = Inl IndexError"
  by (rule example_login_without_lt)

text \<open>
  Claim C6. With a non-empty token and \<open>force_login\<close> false, \<open>login\<close> returns
  \<open>LOGIN_SKIPED\<close> and leaves the object as it is: it has sent no request.
\<close>

theorem login_fast_path:
  "\<not> force_login \<Longrightarrow> ic_cookie s \<noteq> [] \<Longrightarrow>
     login e force_login s = (Inr LOGIN_SKIPED, s) \<and> sent (snd (login e force_login s)) = sent s"
  by (simp add: login_def)

theorem login_fast_path_witness:
  "login example_env False (example_zwyt example_token) =
     (Inr LOGIN_SKIPED, example_zwyt example_token) \<and>
   sent (snd (login example_env False (example_zwyt example_token))) = []"
proof -
  have c: "ic_cookie (example_zwyt example_token) \<noteq> []"
    by (simp add: example_zwyt_def ZWYT_def example_token_def ascii_def)
  have f: "\<not> False" by simp
  show ?thesis
    using login_fast_path[OF f c, of example_env] by (simp add: example_zwyt_def ZWYT_def)
qed

text \<open>
  Claim C9. A call of \<open>login\<close> that changes the stored token returns \<open>SUCCESS\<close>; a call
  that returns \<open>LOGIN_SKIPED\<close> or \<open>GET_LOGIN_URL_FAILED\<close>, or that raises, leaves the
  stored token as it was.
\<close>

theorem login_cookie_frame:
  "(ic_cookie (snd (login e force_login s)) \<noteq> ic_cookie s \<longrightarrow>
      fst (login e force_login s) = Inr SUCCESS) \<and>
   (fst (login e force_login s) = Inr LOGIN_SKIPED \<or>
    fst (login e force_login s) = Inr GET_LOGIN_URL_FAILED \<or>
    (\<exists>err. fst (login e force_login s) = Inl err) \<longrightarrow>
      ic_cookie (snd (login e force_login s)) = ic_cookie s)"
  using login_result[of e force_login s "fst (login e force_login s)" "snd (login e force_login s)"]
  by auto

theorem login_cookie_frame_witness:
  "fst (login example_env True (example_zwyt (ascii ''stale''))) = Inr SUCCESS \<and>
   ic_cookie (snd (login example_env True (example_zwyt (ascii ''stale'')))) = example_token \<and>
   ic_cookie (snd (login example_env False (example_zwyt (ascii ''stale'')))) = ascii ''stale''"
proof -
  have new: "ic_cookie (snd (login example_env True (example_zwyt (ascii ''stale'')))) = example_token"
    by (simp add: login_def get_login_url_def http_def example_env_def example_zwyt_def ZWYT_def
      json_reply_def header_reply_def negotiate_def fetch_login_form_def first_of_def ascii_def
      submit_credentials_def exchange_ticket_def derive_cookie_def str_of_header_def
      starts_with_def Let_def passwordReset_def example_token_def)
  have old: "ic_cookie (example_zwyt (ascii ''stale'')) = ascii ''stale''"
    by (simp add: example_zwyt_def ZWYT_def)
  have ne: "example_token \<noteq> ascii ''stale''" by (simp add: example_token_def ascii_def)
  have skip: "fst (login example_env False (example_zwyt (ascii ''stale''))) = Inr LOGIN_SKIPED"
    by (simp add: login_def example_zwyt_def ZWYT_def ascii_def)
  show ?thesis
    using login_cookie_frame[of example_env True "example_zwyt (ascii ''stale'')"]
      login_cookie_frame[of example_env False "example_zwyt (ascii ''stale'')"] new old ne skip
    by simp
qed

text \<open>
  A portal whose terminals always point to one seat drives \<open>sign\<close> to the recursion
  limit: with four calls allowed it logs in at four terminals and raises RecursionError.
\<close>

lemma redirecting_sign:
  "fst (sign env_redirecting (JStr (ascii ''101-011'')) s) = Inl RecursionError \<and>
   phone_logins (snd (sign env_redirecting (JStr (ascii ''101-011'')) s)) = phone_logins s + 4"
proof -
  have p: "\<exists>res. server env_redirecting h r = Reply res \<and>
      redirect_label res = Some (ascii ''101-011'')" for h r
    using label_101 by (simp add: env_redirecting_def)
  have l: "recursion_limit env_redirecting = 4"
    by (simp add: env_redirecting_def)
  show ?thesis
    using sign_rec_unbounded[OF example_seat_A[OF example_envs_seats(3)] p, of 4 s]
    by (simp add: sign_def l)
qed

text \<open>
  Claim C2, as the code has it. When the device login answers without \<open>data\<close> and with a
  message that holds a label, \<open>sign\<close> calls itself on that label, with that one device
  login sent; the call is again a full \<open>sign\<close>, one nested call deeper, and nothing in it
  counts the retries.
\<close>

theorem sign_follows_redirect:
  assumes "get_seat_resvDev_devSn e devName (ascii ''sign'') = Inr devSn"
    and "http e (Post_phone_login devSn (ic_cookie s)) s = (Inr res1, s1)"
    and "redirect_label res1 = Some label"
  shows "sign_rec (Suc depth) e devName s = sign_rec depth e (JStr label) s1 \<and>
         phone_logins s1 = Suc (phone_logins s)"
  using sign_rec_redirect[OF assms] phone_logins_http[OF assms(2)] by simp

theorem sign_follows_redirect_witness:
  "sign_rec 2 example_env (JStr (ascii ''101-011'')) (example_zwyt example_token) =
     sign_rec 1 example_env (JStr (ascii ''102-001''))
       ((example_zwyt example_token)\<lparr>sent :=
          [Post_phone_login (JStr (ascii ''SN-A'')) example_token]\<rparr>) \<and>
   fst (sign example_env (JStr (ascii ''101-011'')) (example_zwyt example_token)) = Inr SUCCESS \<and>
   phone_logins (snd (sign example_env (JStr (ascii ''101-011'')) (example_zwyt example_token))) = 2"
proof -
  let ?s = "example_zwyt example_token"
  let ?s1 = "?s\<lparr>sent := [Post_phone_login (JStr (ascii ''SN-A'')) example_token]\<rparr>"
  have c: "ic_cookie ?s = example_token" "sent ?s = []"
    by (simp_all add: example_zwyt_def ZWYT_def)
  have h: "http example_env (Post_phone_login (JStr (ascii ''SN-A'')) (ic_cookie ?s)) ?s =
      (Inr (pointer_to ''102-001''), ?s1)"
    by (simp add: http_def example_env_def c)
  have two: "(2::nat) = Suc 1" by simp
  have "sign_rec (Suc 1) example_env (JStr (ascii ''101-011'')) ?s =
      sign_rec 1 example_env (JStr (ascii ''102-001'')) ?s1"
    using sign_follows_redirect[OF example_seat_A[OF example_envs_seats(1)] h label_102, of 1]
    by simp
  then have 1: "sign_rec 2 example_env (JStr (ascii ''101-011'')) ?s =
      sign_rec 1 example_env (JStr (ascii ''102-001'')) ?s1"
    by (simp only: two)
  show ?thesis
    using 1 example_sign[OF c(1)] by (simp add: phone_logins_def c)
qed

text \<open>
  Claim C2 as stated fails when the second terminal points on to a third: one call of
  \<open>sign\<close> logs in at three terminals, which is two self-correcting retries, and signs in.
\<close>

theorem sign_two_retries:
  "fst (sign env_two_detours (JStr (ascii ''101-011'')) (example_zwyt example_token)) =
     Inr SUCCESS \<and>
   phone_logins (snd (sign env_two_detours (JStr (ascii ''101-011''))
     (example_zwyt example_token))) = 3"
proof -
  have c: "ic_cookie (example_zwyt example_token) = example_token"
    "sent (example_zwyt example_token) = []"
    by (simp_all add: example_zwyt_def ZWYT_def)
  show ?thesis
    using detour_sign[OF c(1)] by (simp add: phone_logins_def c)
qed

text \<open>
  Claim C3. Whatever the login, the sign-in and the notification do, the two rounds of
  the loop call \<open>login\<close> at most twice and the sign-in at most twice; after a login that
  returned \<open>GET_LOGIN_URL_FAILED\<close> the loop makes no further call of either, and a
  sign-in that returned \<open>SUCCESS\<close>, \<open>ALREADY_SIGNED\<close> or \<open>NO_RESERVATION\<close> is its last call.
\<close>

theorem control_loop_bounded:
  "length (filter is_login_call (trace_of (attempts 2 login_op sign_op notify SUCCESS yy ms))) \<le> 2 \<and>
   length (filter is_sign_call (trace_of (attempts 2 login_op sign_op notify SUCCESS yy ms))) \<le> 2 \<and>
   stops_in_time (trace_of (attempts 2 login_op sign_op notify SUCCESS yy ms))"
  by (rule attempts_events)

theorem control_loop_bounded_witness:
  "trace_of (attempts 2 (login example_env) (sign_for_ahead_reservation example_env)
       (notify_login_failed example_env example_student) SUCCESS
       (ZWYT (ascii ''zhu'') (ascii ''2001'') (ascii ''pw'') [] (ascii ''stale''))
       \<lparr>external_cookies = [], cookie_dirty = False\<rparr>) =
     [Login_call False (Inr LOGIN_SKIPED), Sign_call (Inr COOKIE_EXPIRED),
      Login_call True (Inr SUCCESS), Sign_call (Inr SUCCESS)] \<and>
   stops_in_time [Login_call False (Inr LOGIN_SKIPED), Sign_call (Inr COOKIE_EXPIRED),
      Login_call True (Inr SUCCESS), Sign_call (Inr SUCCESS)] \<and>
   trace_of (attempts 2 (\<lambda>force_login yy. (Inr FAILED, yy)) (\<lambda>yy. (Inr FAILED, yy))
       (\<lambda>yy. (Inr (), yy)) SUCCESS (example_zwyt [])
       \<lparr>external_cookies = [], cookie_dirty = False\<rparr>) =
     [Login_call False (Inr FAILED), Sign_call (Inr FAILED),
      Login_call False (Inr FAILED), Sign_call (Inr FAILED)]"
  using control_loop_bounded[of "login example_env" "sign_for_ahead_reservation example_env"
      "notify_login_failed example_env example_student"
      "ZWYT (ascii ''zhu'') (ascii ''2001'') (ascii ''pw'') [] (ascii ''stale'')"
      "\<lparr>external_cookies = [], cookie_dirty = False\<rparr>"]
    control_loop_bounded[of "\<lambda>force_login yy. (Inr FAILED, yy)" "\<lambda>yy. (Inr FAILED, yy)"
      "\<lambda>yy. (Inr (), yy)" "example_zwyt []" "\<lparr>external_cookies = [], cookie_dirty = False\<rparr>"]
    example_attempts
  by (simp add: numeral_2_eq_2 attempt_def try_sign_def trace_of_def)

end
